theory Spec2Isabelle
  imports Main "HOL-Library.Word"
begin

section \<open>JavaScript values\<close>

text \<open>
  A JavaScript string is a sequence of UTF-16 code units. Literals of the source that are
  plain ASCII are written with \<open>ascii\<close>; the Chinese parts of the source's messages are
  written as their code units.
\<close>

type_synonym jsstring = "16 word list"

definition ascii :: "string \<Rightarrow> jsstring" where
  "ascii s = map (\<lambda>c. of_char c) s"

text \<open>
  The values that \<open>JSON.parse\<close> produces. Numbers are the integers (identifiers, error
  codes and HTTP status codes are all this program looks at). An object is the list of
  its members, keys distinct. \<open>undefined\<close> is not a JSON value: a value that may be
  \<open>undefined\<close> has the type \<open>json option\<close>, with \<open>None\<close> for \<open>undefined\<close>.
\<close>

datatype json =
    JNull
  | JBool bool
  | JNum int
  | JStr jsstring
  | JArr "json list"
  | JObj "(jsstring \<times> json) list"

text \<open>Truthiness, as \<open>!v\<close>, \<open>a || b\<close> and \<open>if (v)\<close> test it.\<close>

fun truthy :: "json option \<Rightarrow> bool" where
  "truthy None = False"
| "truthy (Some JNull) = False"
| "truthy (Some (JBool b)) = b"
| "truthy (Some (JNum n)) = (n \<noteq> 0)"
| "truthy (Some (JStr s)) = (s \<noteq> [])"
| "truthy (Some (JArr xs)) = True"
| "truthy (Some (JObj kvs)) = True"

text \<open>\<open>typeof v === 'string'\<close>.\<close>

fun is_string :: "json option \<Rightarrow> bool" where
  "is_string (Some (JStr s)) = True"
| "is_string v = False"

text \<open>
  Reading the property \<open>k\<close> of a value that is neither \<open>null\<close> nor \<open>undefined\<close>: a member
  of an object, and \<open>undefined\<close> on every other value for each property name this program
  reads. Reading a property of \<open>null\<close> or \<open>undefined\<close> raises a TypeError, which the
  functions below write out where it can happen.
\<close>

fun get_prop :: "json \<Rightarrow> jsstring \<Rightarrow> json option" where
  "get_prop (JObj kvs) k = map_of kvs k"
| "get_prop v k = None"

text \<open>\<open>a || b\<close> on values that may be undefined.\<close>

definition or_else :: "json option \<Rightarrow> json option \<Rightarrow> json option" where
  "or_else a b = (if truthy a then a else b)"

text \<open>\<open>v || {}\<close>, which is never undefined.\<close>

definition or_empty :: "json option \<Rightarrow> json" where
  "or_empty v = (case v of Some x \<Rightarrow> (if truthy v then x else JObj []) | None \<Rightarrow> JObj [])"

text \<open>An object literal: members whose value is \<open>undefined\<close> are dropped when the object
  is serialised, and read back as \<open>undefined\<close> before that, so they are left out.\<close>

fun members :: "(jsstring \<times> json option) list \<Rightarrow> (jsstring \<times> json) list" where
  "members [] = []"
| "members ((k, None) # kvs) = members kvs"
| "members ((k, Some v) # kvs) = (k, v) # members kvs"

subsection \<open>Numbers and values as text\<close>

text \<open>Decimal digits of a natural number, as \<open>String(n)\<close> prints one that a double
  holds exactly and that is below \<open>10^21\<close>; beyond that the engine rounds and prints an
  exponent.\<close>

fun decimal_nat :: "nat \<Rightarrow> jsstring" where
  "decimal_nat n =
     (if n < 10 then [of_nat (48 + n)]
      else decimal_nat (n div 10) @ [of_nat (48 + n mod 10)])"

declare decimal_nat.simps [simp del]

definition decimal :: "int \<Rightarrow> jsstring" where
  "decimal i = (if i < 0 then ascii ''-'' @ decimal_nat (nat (- i)) else decimal_nat (nat i))"

text \<open>
  \<open>ToString\<close>, the conversion a template literal and the \<open>Error\<close> constructor apply.
  An array joins the texts of its elements with commas, \<open>null\<close> elements being empty. An
  object is converted by its \<open>toString\<close> method: an object without a member of that name
  inherits the one that prints \<open>[object Object]\<close>; a member of that name, coming from
  JSON, is not a function, so the conversion tries \<open>valueOf\<close>, gets the object back and
  raises a TypeError. \<open>None\<close> is that TypeError.
\<close>

fun ToString :: "json \<Rightarrow> jsstring option" and join_elems :: "json list \<Rightarrow> jsstring option" where
  "ToString JNull = Some (ascii ''null'')"
| "ToString (JBool b) = Some (if b then ascii ''true'' else ascii ''false'')"
| "ToString (JNum n) = Some (decimal n)"
| "ToString (JStr s) = Some s"
| "ToString (JArr xs) = join_elems xs"
| "ToString (JObj kvs) =
     (if map_of kvs (ascii ''toString'') = None then Some (ascii ''[object Object]'') else None)"
| "join_elems [] = Some []"
| "join_elems (x # xs) =
     (case (if x = JNull then Some [] else ToString x) of
        None \<Rightarrow> None
      | Some s \<Rightarrow>
          (if xs = [] then Some s
           else (case join_elems xs of None \<Rightarrow> None | Some r \<Rightarrow> Some (s @ ascii '','' @ r))))"

definition ToString_opt :: "json option \<Rightarrow> jsstring option" where
  "ToString_opt v = (case v of None \<Rightarrow> Some (ascii ''undefined'') | Some x \<Rightarrow> ToString x)"

subsection \<open>UTF-8 length\<close>

text \<open>
  \<open>Buffer.byteLength(s, 'utf8')\<close>: one byte below U+0080, two below U+0800, four for a
  surrogate pair, three for every other code unit (a lone surrogate is encoded as U+FFFD).
\<close>

definition is_high_surrogate :: "16 word \<Rightarrow> bool" where
  "is_high_surrogate c = (0xD800 \<le> c \<and> c \<le> 0xDBFF)"

definition is_low_surrogate :: "16 word \<Rightarrow> bool" where
  "is_low_surrogate c = (0xDC00 \<le> c \<and> c \<le> 0xDFFF)"

fun byteLength_utf8 :: "jsstring \<Rightarrow> nat" where
  "byteLength_utf8 [] = 0"
| "byteLength_utf8 [c] = (if c < 0x80 then 1 else if c < 0x800 then 2 else 3)"
| "byteLength_utf8 (c # d # cs) =
     (if c < 0x80 then 1 + byteLength_utf8 (d # cs)
      else if c < 0x800 then 2 + byteLength_utf8 (d # cs)
      else if is_high_surrogate c \<and> is_low_surrogate d then 4 + byteLength_utf8 cs
      else 3 + byteLength_utf8 (d # cs))"

section \<open>Errors and the outside world\<close>

text \<open>The response of an HTTP request that an axios error carries.\<close>

record http_response =
  resp_status :: int
  resp_statusText :: jsstring
  resp_data :: json

text \<open>
  What the program raises and catches. \<open>WeComError code message data\<close> is the class of
  \<^verbatim>\<open>wecom-client.js\<close>; its code is whatever the caller passed, possibly \<open>undefined\<close>.
  \<open>OtherError name code message response\<close> is every other exception: a file-system error
  (with a code such as ENOENT), an axios error (with a response when the server answered),
  a TypeError of the engine.
\<close>

datatype js_error =
    WeComError "json option" jsstring json
  | OtherError jsstring "jsstring option" jsstring "http_response option"

text \<open>The constructor of WeComError: \<open>data\<close> defaults to the empty object.
  \<open>is_WeComError\<close> is \<open>error instanceof WeComError\<close>.\<close>

definition new_WeComError :: "json option \<Rightarrow> jsstring \<Rightarrow> json option \<Rightarrow> js_error" where
  "new_WeComError code message data =
     WeComError code message (case data of None \<Rightarrow> JObj [] | Some d \<Rightarrow> d)"

fun is_WeComError :: "js_error \<Rightarrow> bool" where
  "is_WeComError (WeComError c m d) = True"
| "is_WeComError (OtherError n c m r) = False"

fun error_message :: "js_error \<Rightarrow> jsstring" where
  "error_message (WeComError c m d) = m"
| "error_message (OtherError n c m r) = m"

text \<open>The body of a POST request: JSON, or the multipart form of an upload (the file's
  bytes, its file name and its content type).\<close>

datatype post_body =
    JsonBody json
  | FormBody "8 word list" jsstring jsstring

text \<open>
  Everything outside the repository's code is a parameter of the model: the process
  environment, the file system, the HTTP transport (axios), the library functions the
  client calls and the engine's wording of a TypeError, given the property that could
  not be read (of \<open>null\<close> or \<open>undefined\<close>) or, for \<open>toString\<close>, called.
  A request that axios rejects, and a file that cannot be read, give \<open>Inl\<close> the error.
\<close>

record world =
  WECOM_WEBHOOK_KEY :: "jsstring option"
  readFile :: "jsstring \<Rightarrow> js_error + 8 word list"
  axios_post :: "jsstring \<Rightarrow> post_body \<Rightarrow> (jsstring \<times> jsstring) list \<Rightarrow> js_error + json"
  axios_get :: "jsstring \<Rightarrow> js_error + int \<times> 8 word list"
  path_basename :: "jsstring \<Rightarrow> jsstring"
  path_extname :: "jsstring \<Rightarrow> jsstring"
  toLowerCase :: "jsstring \<Rightarrow> jsstring"
  calculateMD5 :: "8 word list \<Rightarrow> jsstring"
  toString_base64 :: "8 word list \<Rightarrow> jsstring"
  URL_parses :: "jsstring \<Rightarrow> bool"
  TypeError_message :: "jsstring \<Rightarrow> jsstring"

text \<open>What a call does to the outside world, in order. The two HTTP events are the
  network calls.\<close>

datatype io_event =
    ReadFile jsstring
  | HttpPost jsstring post_body "(jsstring \<times> jsstring) list"
  | HttpGet jsstring

fun is_network_call :: "io_event \<Rightarrow> bool" where
  "is_network_call (ReadFile p) = False"
| "is_network_call (HttpPost u b ps) = True"
| "is_network_call (HttpGet u) = True"

text \<open>An asynchronous call: the value it resolves to or the error it rejects with, and
  the events it caused.\<close>

type_synonym 'a io = "(js_error + 'a) \<times> io_event list"

definition TypeError :: "world \<Rightarrow> jsstring \<Rightarrow> js_error" where
  "TypeError w p = OtherError (ascii ''TypeError'') None (TypeError_message w p) None"

text \<open>The string inside a value whose \<open>typeof\<close> is \<open>'string'\<close>.\<close>

fun str_of :: "json option \<Rightarrow> jsstring" where
  "str_of (Some (JStr s)) = s"
| "str_of v = []"

text \<open>\<open>v || d\<close> as the message of an error, which the \<open>Error\<close> constructor turns into a
  string, or fails to.\<close>

definition message_or :: "json option \<Rightarrow> jsstring \<Rightarrow> jsstring option" where
  "message_or v d =
     (case v of None \<Rightarrow> Some d | Some x \<Rightarrow> (if truthy v then ToString x else Some d))"

section \<open>The client of the webhook: wecom-client.js\<close>

subsection \<open>Constants and messages\<close>

definition BASE_URL :: jsstring where
  "BASE_URL = ascii ''https://qyapi.weixin.qq.com/cgi-bin/webhook''"

definition FILE_TYPE :: "(jsstring \<times> jsstring) list" where
  "FILE_TYPE = [(ascii ''FILE'', ascii ''file''), (ascii ''VOICE'', ascii ''voice'')]"

definition SUPPORTED_IMAGE_FORMATS :: "jsstring list" where
  "SUPPORTED_IMAGE_FORMATS = [ascii ''jpg'', ascii ''jpeg'', ascii ''png'']"

definition FILE_SIZE_LIMITS :: "(jsstring \<times> nat) list" where
  "FILE_SIZE_LIMITS =
     [(ascii ''FILE'', 20 * 1024 * 1024),
      (ascii ''VOICE'', 2 * 1024 * 1024),
      (ascii ''IMAGE'', 2 * 1024 * 1024)]"

definition MARKDOWN_MAX_BYTES :: nat where
  "MARKDOWN_MAX_BYTES = 4096"

definition minus_one :: "json option" where
  "minus_one = Some (JNum (- 1))"

definition msg_webhookKey_invalid :: jsstring where
  "msg_webhookKey_invalid = ascii ''webhookKey '' @ [0x662F, 0x5FC5, 0x9700, 0x7684, 0x5B57,
     0x7B26, 0x4E32, 0x53C2, 0x6570]"

definition msg_send_failed :: jsstring where
  "msg_send_failed = [0x53D1, 0x9001, 0x6D88, 0x606F, 0x5931, 0x8D25]"

definition msg_send_ok :: jsstring where
  "msg_send_ok = [0x6D88, 0x606F, 0x53D1, 0x9001, 0x6210, 0x529F]"

definition msg_api_response_error :: jsstring where
  "msg_api_response_error = ascii ''API '' @ [0x54CD, 0x5E94, 0x9519, 0x8BEF, 0xFF1A]"

definition msg_network_failed :: jsstring where
  "msg_network_failed = [0x7F51, 0x7EDC, 0x8BF7, 0x6C42, 0x5931, 0x8D25, 0xFF1A]"

definition msg_content_invalid :: jsstring where
  "msg_content_invalid = ascii ''content '' @ [0x53C2, 0x6570, 0x4E0D, 0x80FD, 0x4E3A, 0x7A7A,
     0x4E14, 0x5FC5, 0x987B, 0x662F, 0x5B57, 0x7B26, 0x4E32]"

definition msg_too_long_1 :: jsstring where
  "msg_too_long_1 = [0x5185, 0x5BB9, 0x957F, 0x5EA6, 0x8D85, 0x51FA, 0x9650, 0x5236, 0xFF1A,
     0x5F53, 0x524D] @ ascii '' ''"

definition msg_too_long_2 :: jsstring where
  "msg_too_long_2 = ascii '' '' @ [0x5B57, 0x8282, 0xFF0C, 0x6700, 0x5927] @ ascii '' ''"

definition msg_too_long_3 :: jsstring where
  "msg_too_long_3 = ascii '' '' @ [0x5B57, 0x8282]"

definition msg_filePath_invalid :: jsstring where
  "msg_filePath_invalid = ascii ''filePath '' @ [0x53C2, 0x6570, 0x5FC5, 0x987B, 0x662F,
     0x6709, 0x6548, 0x7684, 0x5B57, 0x7B26, 0x4E32]"

definition msg_type_invalid :: jsstring where
  "msg_type_invalid = ascii ''type '' @ [0x53C2, 0x6570, 0x5FC5, 0x987B, 0x662F] @ ascii '' ''
     @ [0x0022] @ ascii ''file'' @ [0x0022] @ ascii '' '' @ [0x6216] @ ascii '' '' @ [0x0022]
     @ ascii ''voice'' @ [0x0022]"

definition msg_file_too_small :: jsstring where
  "msg_file_too_small = [0x6587, 0x4EF6, 0x5927, 0x5C0F, 0x5FC5, 0x987B, 0x5927, 0x4E8E]
     @ ascii '' 5 '' @ [0x5B57, 0x8282]"

definition msg_file_too_big :: jsstring where
  "msg_file_too_big = [0x6587, 0x4EF6, 0x5927, 0x5C0F, 0x8D85, 0x51FA, 0x9650, 0x5236, 0xFF1A,
     0x6700, 0x5927] @ ascii '' ''"

definition msg_upload_failed :: jsstring where
  "msg_upload_failed = [0x6587, 0x4EF6, 0x4E0A, 0x4F20, 0x5931, 0x8D25]"

definition msg_upload_ok :: jsstring where
  "msg_upload_ok = [0x6587, 0x4EF6, 0x4E0A, 0x4F20, 0x6210, 0x529F]"

definition msg_file_missing :: jsstring where
  "msg_file_missing = [0x6587, 0x4EF6, 0x4E0D, 0x5B58, 0x5728, 0xFF1A]"

definition msg_upload_failed_colon :: jsstring where
  "msg_upload_failed_colon = [0x6587, 0x4EF6, 0x4E0A, 0x4F20, 0x5931, 0x8D25, 0xFF1A]"

definition msg_mediaId_invalid :: jsstring where
  "msg_mediaId_invalid = ascii ''mediaId '' @ [0x53C2, 0x6570, 0x5FC5, 0x987B, 0x662F, 0x6709,
     0x6548, 0x7684, 0x5B57, 0x7B26, 0x4E32]"

definition msg_imagePath_invalid :: jsstring where
  "msg_imagePath_invalid = ascii ''imagePath '' @ [0x53C2, 0x6570, 0x5FC5, 0x987B, 0x662F,
     0x6709, 0x6548, 0x7684, 0x5B57, 0x7B26, 0x4E32]"

definition msg_image_format_1 :: jsstring where
  "msg_image_format_1 = [0x4E0D, 0x652F, 0x6301, 0x7684, 0x56FE, 0x7247, 0x683C, 0x5F0F,
     0xFF1A]"

definition msg_image_format_2 :: jsstring where
  "msg_image_format_2 = [0xFF0C, 0x4EC5, 0x652F, 0x6301] @ ascii '' ''"

definition msg_image_too_big :: jsstring where
  "msg_image_too_big = [0x56FE, 0x7247, 0x5927, 0x5C0F, 0x8D85, 0x51FA, 0x9650, 0x5236,
     0xFF1A, 0x6700, 0x5927] @ ascii '' ''"

definition msg_image_missing :: jsstring where
  "msg_image_missing = [0x56FE, 0x7247, 0x6587, 0x4EF6, 0x4E0D, 0x5B58, 0x5728, 0xFF1A]"

definition msg_send_image_failed :: jsstring where
  "msg_send_image_failed = [0x53D1, 0x9001, 0x56FE, 0x7247, 0x5931, 0x8D25, 0xFF1A]"

definition msg_imageUrl_invalid :: jsstring where
  "msg_imageUrl_invalid = ascii ''imageUrl '' @ [0x53C2, 0x6570, 0x5FC5, 0x987B, 0x662F,
     0x6709, 0x6548, 0x7684, 0x5B57, 0x7B26, 0x4E32]"

definition msg_url_invalid :: jsstring where
  "msg_url_invalid = [0x65E0, 0x6548, 0x7684] @ ascii '' URL '' @ [0x683C, 0x5F0F]"

definition msg_download_failed_http :: jsstring where
  "msg_download_failed_http = [0x4E0B, 0x8F7D, 0x56FE, 0x7247, 0x5931, 0x8D25, 0xFF1A]
     @ ascii ''HTTP ''"

definition msg_download_or_send_failed :: jsstring where
  "msg_download_or_send_failed = [0x4E0B, 0x8F7D, 0x6216, 0x53D1, 0x9001, 0x56FE, 0x7247,
     0x5931, 0x8D25, 0xFF1A]"


subsection \<open>sendMessage\<close>

text \<open>The \<open>catch\<close> block of \<open>sendMessage\<close>: a WeComError passes through, an axios error
  with a response becomes a WeComError of the HTTP status, anything else one of code -1.\<close>

definition sendMessage_catch :: "js_error \<Rightarrow> js_error" where
  "sendMessage_catch error =
     (case error of
        WeComError c m d \<Rightarrow> error
      | OtherError n c m (Some r) \<Rightarrow>
          new_WeComError (Some (JNum (resp_status r)))
            (msg_api_response_error @ decimal (resp_status r) @ ascii '' '' @ resp_statusText r)
            (Some (JObj [(ascii ''status'', JNum (resp_status r)), (ascii ''data'', resp_data r)]))
      | OtherError n c m None \<Rightarrow>
          new_WeComError minus_one (msg_network_failed @ m)
            (Some (JObj [(ascii ''originalError'', JStr m)])))"

text \<open>
  \<open>sendMessage(msgType, content)\<close> of a client holding \<open>webhookKey\<close>: one POST to
  \<open>/send\<close>; the body of the answer is \<open>data\<close>. Reading \<open>data.errcode\<close> of a \<open>null\<close> body
  raises a TypeError inside the \<open>try\<close>, and so does a message that cannot be converted
  to a string.
\<close>

definition WeComClient_sendMessage :: "world \<Rightarrow> jsstring \<Rightarrow> jsstring \<Rightarrow> json \<Rightarrow> json io" where
  "WeComClient_sendMessage w webhookKey msgType content =
     (let url = BASE_URL @ ascii ''/send'';
          body = JsonBody (JObj [(ascii ''msgtype'', JStr msgType), (msgType, content)]);
          params = [(ascii ''key'', webhookKey)]
      in ((case axios_post w url body params of
             Inl error \<Rightarrow> Inl (sendMessage_catch error)
           | Inr data \<Rightarrow>
               (if data = JNull then Inl (sendMessage_catch (TypeError w (ascii ''errcode'')))
                else if get_prop data (ascii ''errcode'') \<noteq> Some (JNum 0) then
                  (case message_or (get_prop data (ascii ''errmsg'')) msg_send_failed of
                     None \<Rightarrow> Inl (sendMessage_catch (TypeError w (ascii ''toString'')))
                   | Some message \<Rightarrow>
                       Inl (sendMessage_catch
                             (new_WeComError (get_prop data (ascii ''errcode'')) message
                                (Some data))))
                else
                  Inr (JObj [(ascii ''success'', JBool True),
                             (ascii ''message'', JStr msg_send_ok),
                             (ascii ''data'', data)]))),
          [HttpPost url body params]))"

subsection \<open>The constructor and sendMarkdownV2\<close>

text \<open>\<open>new WeComClient(webhookKey)\<close>: the instance is its key.\<close>

definition new_WeComClient :: "json option \<Rightarrow> js_error + jsstring" where
  "new_WeComClient webhookKey =
     (if \<not> truthy webhookKey \<or> \<not> is_string webhookKey then
        Inl (new_WeComError minus_one msg_webhookKey_invalid None)
      else Inr (str_of webhookKey))"

definition WeComClient_sendMarkdownV2 :: "world \<Rightarrow> jsstring \<Rightarrow> json option \<Rightarrow> json io" where
  "WeComClient_sendMarkdownV2 w webhookKey content =
     (if \<not> truthy content \<or> \<not> is_string content then
        (Inl (new_WeComError minus_one msg_content_invalid None), [])
      else
        (let byteLength = byteLength_utf8 (str_of content)
         in if byteLength > MARKDOWN_MAX_BYTES then
              (Inl (new_WeComError minus_one
                     (msg_too_long_1 @ decimal_nat byteLength @ msg_too_long_2
                        @ decimal_nat MARKDOWN_MAX_BYTES @ msg_too_long_3) None), [])
            else
              WeComClient_sendMessage w webhookKey (ascii ''markdown_v2'')
                (JObj [(ascii ''content'', JStr (str_of content))])))"

subsection \<open>uploadMedia\<close>

text \<open>\<open>_getMimeType\<close>: the table's entry for the lower-cased extension, or the default.
  The lookup here is among the table's own entries; for an extension that names a member
  every object inherits (\<open>constructor\<close>, say) the source finds that member instead of
  the default.\<close>

definition mimeTypes :: "(jsstring \<times> jsstring) list" where
  "mimeTypes =
     [(ascii ''pdf'', ascii ''application/pdf''),
      (ascii ''doc'', ascii ''application/msword''),
      (ascii ''docx'', ascii ''application/vnd.openxmlformats-officedocument.wordprocessingml.document''),
      (ascii ''xls'', ascii ''application/vnd.ms-excel''),
      (ascii ''xlsx'', ascii ''application/vnd.openxmlformats-officedocument.spreadsheetml.sheet''),
      (ascii ''ppt'', ascii ''application/vnd.ms-powerpoint''),
      (ascii ''pptx'', ascii ''application/vnd.openxmlformats-officedocument.presentationml.presentation''),
      (ascii ''txt'', ascii ''text/plain''),
      (ascii ''csv'', ascii ''text/csv''),
      (ascii ''md'', ascii ''text/markdown''),
      (ascii ''zip'', ascii ''application/zip''),
      (ascii ''rar'', ascii ''application/x-rar-compressed''),
      (ascii ''7z'', ascii ''application/x-7z-compressed''),
      (ascii ''jpg'', ascii ''image/jpeg''),
      (ascii ''jpeg'', ascii ''image/jpeg''),
      (ascii ''png'', ascii ''image/png''),
      (ascii ''gif'', ascii ''image/gif''),
      (ascii ''webp'', ascii ''image/webp''),
      (ascii ''mp3'', ascii ''audio/mpeg''),
      (ascii ''wav'', ascii ''audio/wav''),
      (ascii ''amr'', ascii ''audio/amr''),
      (ascii ''mp4'', ascii ''video/mp4''),
      (ascii ''avi'', ascii ''video/x-msvideo''),
      (ascii ''mov'', ascii ''video/quicktime'')]"

definition getMimeType :: "world \<Rightarrow> jsstring \<Rightarrow> jsstring" where
  "getMimeType w filePath =
     (let ext = toLowerCase w (drop 1 (path_extname w filePath))
      in case map_of mimeTypes ext of
           Some t \<Rightarrow> (if t = [] then ascii ''application/octet-stream'' else t)
         | None \<Rightarrow> ascii ''application/octet-stream'')"

text \<open>The \<open>catch\<close> block of \<open>uploadMedia\<close>.\<close>

definition uploadMedia_catch :: "jsstring \<Rightarrow> js_error \<Rightarrow> js_error" where
  "uploadMedia_catch filePath error =
     (case error of
        WeComError c m d \<Rightarrow> error
      | OtherError n c m r \<Rightarrow>
          (if c = Some (ascii ''ENOENT'') then
             new_WeComError minus_one (msg_file_missing @ filePath) None
           else
             new_WeComError minus_one (msg_upload_failed_colon @ m)
               (Some (JObj [(ascii ''originalError'', JStr m)]))))"

text \<open>
  \<open>fileSize > maxSize\<close> where \<open>maxSize\<close> is what the lookup in the table gave: a
  comparison with \<open>undefined\<close> is false.
\<close>

definition exceeds :: "nat \<Rightarrow> nat option \<Rightarrow> bool" where
  "exceeds fileSize maxSize = (case maxSize of None \<Rightarrow> False | Some m \<Rightarrow> fileSize > m)"

text \<open>\<open>maxSize / 1024 / 1024\<close> as the message prints it; the division is exact for the
  entries of the table.\<close>

definition maxMB :: "nat option \<Rightarrow> jsstring" where
  "maxMB maxSize = (case maxSize of None \<Rightarrow> ascii ''NaN'' | Some m \<Rightarrow> decimal_nat (m div 1024 div 1024))"

text \<open>
  \<open>uploadMedia(filePath, type = FILE_TYPE.FILE)\<close>. The limit is looked up as
  \<open>FILE_SIZE_LIMITS[type]\<close>, with the type itself (\<open>'file'\<close> or \<open>'voice'\<close>) as the key.
\<close>

definition WeComClient_uploadMedia ::
  "world \<Rightarrow> jsstring \<Rightarrow> json option \<Rightarrow> json option \<Rightarrow> json io" where
  "WeComClient_uploadMedia w webhookKey filePath type_arg =
     (let type = (case type_arg of None \<Rightarrow> Some (JStr (ascii ''file'')) | Some t \<Rightarrow> Some t)
      in if \<not> truthy filePath \<or> \<not> is_string filePath then
           (Inl (new_WeComError minus_one msg_filePath_invalid None), [])
         else if type \<notin> set (map (\<lambda>kv. Some (JStr (snd kv))) FILE_TYPE) then
           (Inl (new_WeComError minus_one msg_type_invalid None), [])
         else
           (let path = str_of filePath in
            case readFile w path of
              Inl error \<Rightarrow> (Inl (uploadMedia_catch path error), [ReadFile path])
            | Inr fileBuffer \<Rightarrow>
                (let fileSize = length fileBuffer;
                     maxSize = map_of FILE_SIZE_LIMITS (str_of type)
                 in if fileSize \<le> 5 then
                      (Inl (uploadMedia_catch path
                             (new_WeComError minus_one msg_file_too_small None)),
                       [ReadFile path])
                    else if exceeds fileSize maxSize then
                      (Inl (uploadMedia_catch path
                             (new_WeComError minus_one
                                (msg_file_too_big @ maxMB maxSize @ ascii ''MB'') None)),
                       [ReadFile path])
                    else
                      (let url = BASE_URL @ ascii ''/upload_media'';
                           body = FormBody fileBuffer (path_basename w path) (getMimeType w path);
                           params = [(ascii ''key'', webhookKey), (ascii ''type'', str_of type)]
                       in ((case axios_post w url body params of
                              Inl error \<Rightarrow> Inl (uploadMedia_catch path error)
                            | Inr data \<Rightarrow>
                                (if data = JNull then
                                   Inl (uploadMedia_catch path (TypeError w (ascii ''errcode'')))
                                 else if get_prop data (ascii ''errcode'') \<noteq> Some (JNum 0) then
                                   (case message_or (get_prop data (ascii ''errmsg''))
                                           msg_upload_failed of
                                      None \<Rightarrow>
                                        Inl (uploadMedia_catch path
                                              (TypeError w (ascii ''toString'')))
                                    | Some message \<Rightarrow>
                                        Inl (uploadMedia_catch path
                                              (new_WeComError (get_prop data (ascii ''errcode''))
                                                 message (Some data))))
                                 else
                                   Inr (JObj (members
                                         [(ascii ''success'', Some (JBool True)),
                                          (ascii ''message'', Some (JStr msg_upload_ok)),
                                          (ascii ''media_id'', get_prop data (ascii ''media_id'')),
                                          (ascii ''type'', get_prop data (ascii ''type'')),
                                          (ascii ''created_at'',
                                             get_prop data (ascii ''created_at''))])))),
                           [ReadFile path, HttpPost url body params])))))"

subsection \<open>sendFile, sendImage, sendImageFromUrl\<close>

definition WeComClient_sendFile :: "world \<Rightarrow> jsstring \<Rightarrow> json option \<Rightarrow> json io" where
  "WeComClient_sendFile w webhookKey mediaId =
     (if \<not> truthy mediaId \<or> \<not> is_string mediaId then
        (Inl (new_WeComError minus_one msg_mediaId_invalid None), [])
      else
        WeComClient_sendMessage w webhookKey (ascii ''file'')
          (JObj [(ascii ''media_id'', JStr (str_of mediaId))]))"

text \<open>\<open>SUPPORTED_IMAGE_FORMATS.join(', ')\<close>.\<close>

definition supported_formats_text :: jsstring where
  "supported_formats_text = ascii ''jpg, jpeg, png''"

definition sendImage_catch :: "jsstring \<Rightarrow> js_error \<Rightarrow> js_error" where
  "sendImage_catch imagePath error =
     (case error of
        WeComError c m d \<Rightarrow> error
      | OtherError n c m r \<Rightarrow>
          (if c = Some (ascii ''ENOENT'') then
             new_WeComError minus_one (msg_image_missing @ imagePath) None
           else
             new_WeComError minus_one (msg_send_image_failed @ m)
               (Some (JObj [(ascii ''originalError'', JStr m)]))))"

text \<open>The message content of an image: its bytes in base64 and their MD5.\<close>

definition image_content :: "world \<Rightarrow> 8 word list \<Rightarrow> json" where
  "image_content w imageBuffer =
     JObj [(ascii ''base64'', JStr (toString_base64 w imageBuffer)),
           (ascii ''md5'', JStr (calculateMD5 w imageBuffer))]"

text \<open>\<open>FILE_SIZE_LIMITS.IMAGE\<close>, read under its own key.\<close>

definition IMAGE_LIMIT :: nat where
  "IMAGE_LIMIT = 2 * 1024 * 1024"

definition WeComClient_sendImage :: "world \<Rightarrow> jsstring \<Rightarrow> json option \<Rightarrow> json io" where
  "WeComClient_sendImage w webhookKey imagePath =
     (if \<not> truthy imagePath \<or> \<not> is_string imagePath then
        (Inl (new_WeComError minus_one msg_imagePath_invalid None), [])
      else
        (let path = str_of imagePath in
         case readFile w path of
           Inl error \<Rightarrow> (Inl (sendImage_catch path error), [ReadFile path])
         | Inr imageBuffer \<Rightarrow>
             (let fileExt = toLowerCase w (drop 1 (path_extname w path))
              in if fileExt \<notin> set SUPPORTED_IMAGE_FORMATS then
                   (Inl (sendImage_catch path
                          (new_WeComError minus_one
                             (msg_image_format_1 @ fileExt @ msg_image_format_2
                                @ supported_formats_text) None)),
                    [ReadFile path])
                 else if length imageBuffer > IMAGE_LIMIT then
                   (Inl (sendImage_catch path
                          (new_WeComError minus_one
                             (msg_image_too_big @ decimal_nat (IMAGE_LIMIT div 1024 div 1024)
                                @ ascii ''MB'') None)),
                    [ReadFile path])
                 else
                   (let (r, t) = WeComClient_sendMessage w webhookKey (ascii ''image'')
                                   (image_content w imageBuffer)
                    in (r, ReadFile path # t)))))"

definition sendImageFromUrl_catch :: "js_error \<Rightarrow> js_error" where
  "sendImageFromUrl_catch error =
     (case error of
        WeComError c m d \<Rightarrow> error
      | OtherError n c m r \<Rightarrow>
          new_WeComError minus_one (msg_download_or_send_failed @ m)
            (Some (JObj [(ascii ''originalError'', JStr m)])))"

definition WeComClient_sendImageFromUrl :: "world \<Rightarrow> jsstring \<Rightarrow> json option \<Rightarrow> json io" where
  "WeComClient_sendImageFromUrl w webhookKey imageUrl =
     (if \<not> truthy imageUrl \<or> \<not> is_string imageUrl then
        (Inl (new_WeComError minus_one msg_imageUrl_invalid None), [])
      else
        (let url = str_of imageUrl in
         if \<not> URL_parses w url then (Inl (new_WeComError minus_one msg_url_invalid None), [])
         else
           (case axios_get w url of
              Inl error \<Rightarrow> (Inl (sendImageFromUrl_catch error), [HttpGet url])
            | Inr (status, bytes) \<Rightarrow>
                (if status \<noteq> 200 then
                   (Inl (sendImageFromUrl_catch
                          (new_WeComError minus_one (msg_download_failed_http @ decimal status)
                             None)),
                    [HttpGet url])
                 else if length bytes > IMAGE_LIMIT then
                   (Inl (sendImageFromUrl_catch
                          (new_WeComError minus_one
                             (msg_image_too_big @ decimal_nat (IMAGE_LIMIT div 1024 div 1024)
                                @ ascii ''MB'') None)),
                    [HttpGet url])
                 else
                   (let (r, t) = WeComClient_sendMessage w webhookKey (ascii ''image'')
                                   (image_content w bytes)
                    in (r, HttpGet url # t))))))"

section \<open>The capability dispatcher: tools.js\<close>

subsection \<open>Messages and descriptions\<close>

definition msg_tool_name_invalid :: jsstring where
  "msg_tool_name_invalid = [0x5DE5, 0x5177, 0x540D, 0x79F0, 0x5FC5, 0x987B, 0x662F, 0x6709,
     0x6548, 0x7684, 0x5B57, 0x7B26, 0x4E32]"

definition msg_unknown_tool_1 :: jsstring where
  "msg_unknown_tool_1 = [0x672A, 0x77E5, 0x5DE5, 0x5177, 0xFF1A]"

definition msg_unknown_tool_2 :: jsstring where
  "msg_unknown_tool_2 = [0x3002, 0x53EF, 0x7528, 0x5DE5, 0x5177, 0xFF1A]
     @ ascii ''send_message, send_file, send_image''"

definition msg_no_webhook_key :: jsstring where
  "msg_no_webhook_key = [0x672A, 0x63D0, 0x4F9B] @ ascii '' webhook_key '' @ [0x53C2, 0x6570,
     0xFF0C, 0x4E14, 0x672A, 0x8BBE, 0x7F6E] @ ascii '' WECOM_WEBHOOK_KEY '' @ [0x73AF,
     0x5883, 0x53D8, 0x91CF]"

definition msg_file_path_invalid :: jsstring where
  "msg_file_path_invalid = ascii ''file_path '' @ [0x53C2, 0x6570, 0x4E0D, 0x80FD, 0x4E3A,
     0x7A7A, 0x4E14, 0x5FC5, 0x987B, 0x662F, 0x5B57, 0x7B26, 0x4E32]"

definition msg_image_neither :: jsstring where
  "msg_image_neither = [0x5FC5, 0x987B, 0x63D0, 0x4F9B] @ ascii '' image_path '' @ [0x6216]
     @ ascii '' image_url '' @ [0x53C2, 0x6570]"

definition msg_image_both :: jsstring where
  "msg_image_both = ascii ''image_path '' @ [0x548C] @ ascii '' image_url '' @ [0x53EA,
     0x80FD, 0x63D0, 0x4F9B, 0x4E00, 0x4E2A]"

definition desc_send_message :: jsstring where
  "desc_send_message = [0x53D1, 0x9001] @ ascii '' Markdown V2 '' @ [0x683C, 0x5F0F, 0x7684,
     0x6D88, 0x606F, 0x5230, 0x4F01, 0x4E1A, 0x5FAE, 0x4FE1, 0x673A, 0x5668, 0x4EBA, 0x3002,
     0x652F, 0x6301, 0x6807, 0x9898, 0x3001, 0x52A0, 0x7C97, 0x3001, 0x659C, 0x4F53, 0x3001,
     0x5217, 0x8868, 0x3001, 0x5F15, 0x7528, 0x3001, 0x94FE, 0x63A5, 0x3001, 0x4EE3, 0x7801,
     0x5757, 0x3001, 0x8868, 0x683C, 0x7B49, 0x8BED, 0x6CD5, 0x3002, 0x5185, 0x5BB9, 0x6700,
     0x5927] @ ascii '' 4096 '' @ [0x5B57, 0x8282, 0x3002, 0x5982, 0x679C, 0x914D, 0x7F6E,
     0x4E86] @ ascii '' WECOM_WEBHOOK_KEY '' @ [0x73AF, 0x5883, 0x53D8, 0x91CF, 0xFF0C]
     @ ascii ''webhook_key '' @ [0x53C2, 0x6570, 0x53EF, 0x9009, 0x3002]"

definition desc_webhook_key :: jsstring where
  "desc_webhook_key = [0x4F01, 0x4E1A, 0x5FAE, 0x4FE1, 0x673A, 0x5668, 0x4EBA, 0x7684]
     @ ascii '' webhook key'' @ [0x3002, 0x5982, 0x679C, 0x672A, 0x8BBE, 0x7F6E]
     @ ascii '' WECOM_WEBHOOK_KEY '' @ [0x73AF, 0x5883, 0x53D8, 0x91CF, 0xFF0C, 0x5219,
     0x6B64, 0x53C2, 0x6570, 0x5FC5, 0x586B, 0x3002]"

definition desc_content :: jsstring where
  "desc_content = ascii ''Markdown V2 '' @ [0x683C, 0x5F0F, 0x7684, 0x6D88, 0x606F, 0x5185,
     0x5BB9, 0x3002, 0x652F, 0x6301, 0x8BED, 0x6CD5, 0xFF1A] @ ascii ''# '' @ [0x6807, 0x9898,
     0x3001] @ ascii ''**'' @ [0x52A0, 0x7C97] @ ascii ''**'' @ [0x3001] @ ascii ''*''
     @ [0x659C, 0x4F53] @ ascii ''*'' @ [0x3001] @ ascii ''- '' @ [0x5217, 0x8868, 0x3001]
     @ ascii ''> '' @ [0x5F15, 0x7528, 0x3001] @ ascii ''['' @ [0x94FE, 0x63A5]
     @ ascii ''](url)'' @ [0x3001, 0x0060, 0x4EE3, 0x7801, 0x0060, 0x3001, 0x0060, 0x0060,
     0x0060, 0x4EE3, 0x7801, 0x5757, 0x0060, 0x0060, 0x0060, 0x3001] @ ascii ''|'' @ [0x8868,
     0x683C] @ ascii ''| '' @ [0x7B49]"

definition desc_send_file :: jsstring where
  "desc_send_file = [0x53D1, 0x9001, 0x6587, 0x4EF6, 0x5230, 0x4F01, 0x4E1A, 0x5FAE, 0x4FE1,
     0x673A, 0x5668, 0x4EBA, 0x3002, 0x5148, 0x4E0A, 0x4F20, 0x6587, 0x4EF6, 0x5230, 0x4F01,
     0x4E1A, 0x5FAE, 0x4FE1, 0x670D, 0x52A1, 0x5668, 0xFF0C, 0x7136, 0x540E, 0x53D1, 0x9001,
     0x6587, 0x4EF6, 0x6D88, 0x606F, 0x3002, 0x652F, 0x6301] @ ascii '' PDF'' @ [0x3001]
     @ ascii ''Word'' @ [0x3001] @ ascii ''Excel'' @ [0x3001] @ ascii ''PPT'' @ [0x3001]
     @ ascii ''TXT'' @ [0x3001] @ ascii ''ZIP '' @ [0x7B49, 0x683C, 0x5F0F, 0xFF0C, 0x6700,
     0x5927] @ ascii '' 20MB'' @ [0x3002, 0x5982, 0x679C, 0x914D, 0x7F6E, 0x4E86]
     @ ascii '' WECOM_WEBHOOK_KEY '' @ [0x73AF, 0x5883, 0x53D8, 0x91CF, 0xFF0C]
     @ ascii ''webhook_key '' @ [0x53C2, 0x6570, 0x53EF, 0x9009, 0x3002]"

definition desc_file_path :: jsstring where
  "desc_file_path = [0x672C, 0x5730, 0x6587, 0x4EF6, 0x7684, 0x7EDD, 0x5BF9, 0x8DEF, 0x5F84,
     0x6216, 0x76F8, 0x5BF9, 0x8DEF, 0x5F84, 0xFF08, 0x4F8B, 0x5982, 0xFF1A]
     @ ascii ''/path/to/document.pdf '' @ [0x6216] @ ascii '' ./files/report.xlsx'' @ [0xFF09]"

definition desc_send_image :: jsstring where
  "desc_send_image = [0x53D1, 0x9001, 0x56FE, 0x7247, 0x5230, 0x4F01, 0x4E1A, 0x5FAE, 0x4FE1,
     0x673A, 0x5668, 0x4EBA, 0x3002, 0x652F, 0x6301, 0x672C, 0x5730, 0x56FE, 0x7247, 0x6587,
     0x4EF6, 0x8DEF, 0x5F84, 0x6216, 0x7F51, 0x7EDC, 0x56FE, 0x7247] @ ascii '' URL''
     @ [0x3002, 0x4EC5, 0x652F, 0x6301] @ ascii '' JPG '' @ [0x548C] @ ascii '' PNG ''
     @ [0x683C, 0x5F0F, 0xFF0C, 0x6700, 0x5927] @ ascii '' 2MB'' @ [0x3002, 0x5982, 0x679C,
     0x914D, 0x7F6E, 0x4E86] @ ascii '' WECOM_WEBHOOK_KEY '' @ [0x73AF, 0x5883, 0x53D8,
     0x91CF, 0xFF0C] @ ascii ''webhook_key '' @ [0x53C2, 0x6570, 0x53EF, 0x9009, 0x3002]"

definition desc_image_path :: jsstring where
  "desc_image_path = [0x672C, 0x5730, 0x56FE, 0x7247, 0x6587, 0x4EF6, 0x7684, 0x8DEF, 0x5F84,
     0xFF08, 0x53EF, 0x9009, 0xFF0C, 0x4E0E] @ ascii '' image_url '' @ [0x4E8C, 0x9009,
     0x4E00, 0xFF09]"

definition desc_image_url :: jsstring where
  "desc_image_url = [0x7F51, 0x7EDC, 0x56FE, 0x7247, 0x7684] @ ascii '' URL '' @ [0x5730,
     0x5740, 0xFF08, 0x53EF, 0x9009, 0xFF0C, 0x4E0E] @ ascii '' image_path '' @ [0x4E8C,
     0x9009, 0x4E00, 0xFF09]"


subsection \<open>The tool definitions\<close>

definition string_property :: "jsstring \<Rightarrow> json" where
  "string_property description =
     JObj [(ascii ''type'', JStr (ascii ''string'')), (ascii ''description'', JStr description)]"

definition tools :: "json list" where
  "tools =
     [JObj [(ascii ''name'', JStr (ascii ''send_message'')),
            (ascii ''description'', JStr desc_send_message),
            (ascii ''inputSchema'',
               JObj [(ascii ''type'', JStr (ascii ''object'')),
                     (ascii ''properties'',
                        JObj [(ascii ''webhook_key'', string_property desc_webhook_key),
                              (ascii ''content'', string_property desc_content)]),
                     (ascii ''required'', JArr [JStr (ascii ''content'')]),
                     (ascii ''additionalProperties'', JBool False)])],
      JObj [(ascii ''name'', JStr (ascii ''send_file'')),
            (ascii ''description'', JStr desc_send_file),
            (ascii ''inputSchema'',
               JObj [(ascii ''type'', JStr (ascii ''object'')),
                     (ascii ''properties'',
                        JObj [(ascii ''webhook_key'', string_property desc_webhook_key),
                              (ascii ''file_path'', string_property desc_file_path)]),
                     (ascii ''required'', JArr [JStr (ascii ''file_path'')]),
                     (ascii ''additionalProperties'', JBool False)])],
      JObj [(ascii ''name'', JStr (ascii ''send_image'')),
            (ascii ''description'', JStr desc_send_image),
            (ascii ''inputSchema'',
               JObj [(ascii ''type'', JStr (ascii ''object'')),
                     (ascii ''properties'',
                        JObj [(ascii ''webhook_key'', string_property desc_webhook_key),
                              (ascii ''image_path'', string_property desc_image_path),
                              (ascii ''image_url'', string_property desc_image_url)]),
                     (ascii ''required'', JArr []),
                     (ascii ''oneOf'',
                        JArr [JObj [(ascii ''required'', JArr [JStr (ascii ''image_path'')])],
                              JObj [(ascii ''required'', JArr [JStr (ascii ''image_url'')])]]),
                     (ascii ''additionalProperties'', JBool False)])]]"

subsection \<open>The response envelope\<close>

text \<open>
  The text of a content item is always \<open>JSON.stringify(v, null, 2)\<close> of some value \<open>v\<close>.
  The text is written as that term, \<open>JSON_stringify v\<close>, and \<open>JSON_parse\<close> reads the
  value back: serialisation and parsing are the engine's, and inverse to each other on
  the values of \<open>json\<close>.
\<close>

datatype json_text = JSON_stringify json

fun JSON_parse :: "json_text \<Rightarrow> json" where
  "JSON_parse (JSON_stringify v) = v"

record content_item =
  item_type :: jsstring
  item_text :: json_text

text \<open>A tool result: \<open>isError\<close> is \<open>None\<close> where the object has no such member.\<close>

record tool_result =
  isError :: "bool option"
  content :: "content_item list"

definition formatSuccess :: "json \<Rightarrow> tool_result" where
  "formatSuccess data =
     \<lparr>isError = None,
      content = [\<lparr>item_type = ascii ''text'', item_text = JSON_stringify data\<rparr>]\<rparr>"

text \<open>\<open>errorData\<close> of \<open>_formatError\<close>: the error's name (or \<open>'Error'\<close>), message and code,
  and its data when that is truthy.\<close>

fun errorData :: "js_error \<Rightarrow> json" where
  "errorData (WeComError c m d) =
     JObj (members
       [(ascii ''error'', Some (JStr (ascii ''WeComError''))),
        (ascii ''message'', Some (JStr m)),
        (ascii ''code'', c),
        (ascii ''data'', if truthy (Some d) then Some d else None)])"
| "errorData (OtherError n c m r) =
     JObj (members
       [(ascii ''error'', Some (JStr (if n = [] then ascii ''Error'' else n))),
        (ascii ''message'', Some (JStr m)),
        (ascii ''code'', map_option JStr c)])"

definition formatError :: "js_error \<Rightarrow> tool_result" where
  "formatError error =
     \<lparr>isError = Some True,
      content = [\<lparr>item_type = ascii ''text'', item_text = JSON_stringify (errorData error)\<rparr>]\<rparr>"

text \<open>The shape of every handler: \<open>try { ... return this._formatSuccess(result) }
  catch (error) { return this._formatError(error) }\<close>.\<close>

definition try_format :: "js_error + json \<Rightarrow> tool_result" where
  "try_format r = (case r of Inl error \<Rightarrow> formatError error | Inr result \<Rightarrow> formatSuccess result)"

subsection \<open>The credential\<close>

text \<open>\<open>process.env.WECOM_WEBHOOK_KEY || null\<close>.\<close>

definition DEFAULT_WEBHOOK_KEY :: "world \<Rightarrow> json option" where
  "DEFAULT_WEBHOOK_KEY w = or_else (map_option JStr (WECOM_WEBHOOK_KEY w)) (Some JNull)"

definition getWebhookKey :: "world \<Rightarrow> json option \<Rightarrow> js_error + json" where
  "getWebhookKey w providedKey =
     (let key = or_else providedKey (DEFAULT_WEBHOOK_KEY w)
      in case key of
           None \<Rightarrow> Inl (new_WeComError minus_one msg_no_webhook_key None)
         | Some k \<Rightarrow>
             (if \<not> truthy key then Inl (new_WeComError minus_one msg_no_webhook_key None)
              else Inr k))"

subsection \<open>The three handlers\<close>

text \<open>
  Each handler destructures its argument in the parameter list, outside its \<open>try\<close>: on
  \<open>null\<close> that raises a TypeError, which the handler does not catch. Inside the \<open>try\<close>
  every error ends in \<open>_formatError\<close>.
\<close>

definition handleSendMessage :: "world \<Rightarrow> json \<Rightarrow> tool_result io" where
  "handleSendMessage w args =
     (if args = JNull then (Inl (TypeError w (ascii ''webhook_key'')), [])
      else
        (let webhook_key = get_prop args (ascii ''webhook_key'');
             content = get_prop args (ascii ''content'')
         in case getWebhookKey w webhook_key of
              Inl error \<Rightarrow> (Inr (formatError error), [])
            | Inr key \<Rightarrow>
                (if \<not> truthy content \<or> \<not> is_string content then
                   (Inr (formatError (new_WeComError minus_one msg_content_invalid None)), [])
                 else
                   (case new_WeComClient (Some key) of
                      Inl error \<Rightarrow> (Inr (formatError error), [])
                    | Inr client \<Rightarrow>
                        (let (result, t) = WeComClient_sendMarkdownV2 w client content
                         in (Inr (try_format result), t))))))"

definition handleSendFile :: "world \<Rightarrow> json \<Rightarrow> tool_result io" where
  "handleSendFile w args =
     (if args = JNull then (Inl (TypeError w (ascii ''webhook_key'')), [])
      else
        (let webhook_key = get_prop args (ascii ''webhook_key'');
             file_path = get_prop args (ascii ''file_path'')
         in case getWebhookKey w webhook_key of
              Inl error \<Rightarrow> (Inr (formatError error), [])
            | Inr key \<Rightarrow>
                (if \<not> truthy file_path \<or> \<not> is_string file_path then
                   (Inr (formatError (new_WeComError minus_one msg_file_path_invalid None)), [])
                 else
                   (case new_WeComClient (Some key) of
                      Inl error \<Rightarrow> (Inr (formatError error), [])
                    | Inr client \<Rightarrow>
                        (case WeComClient_uploadMedia w client file_path
                                (Some (JStr (ascii ''file''))) of
                           (Inl error, t) \<Rightarrow> (Inr (formatError error), t)
                         | (Inr uploadResult, t) \<Rightarrow>
                             (case WeComClient_sendFile w client
                                     (get_prop uploadResult (ascii ''media_id'')) of
                                (Inl error, t') \<Rightarrow> (Inr (formatError error), t @ t')
                              | (Inr sendResult, t') \<Rightarrow>
                                  (Inr (formatSuccess
                                         (JObj [(ascii ''upload'', uploadResult),
                                                (ascii ''send'', sendResult)])),
                                   t @ t')))))))"

definition handleSendImage :: "world \<Rightarrow> json \<Rightarrow> tool_result io" where
  "handleSendImage w args =
     (if args = JNull then (Inl (TypeError w (ascii ''webhook_key'')), [])
      else
        (let webhook_key = get_prop args (ascii ''webhook_key'');
             image_path = get_prop args (ascii ''image_path'');
             image_url = get_prop args (ascii ''image_url'')
         in case getWebhookKey w webhook_key of
              Inl error \<Rightarrow> (Inr (formatError error), [])
            | Inr key \<Rightarrow>
                (if \<not> truthy image_path \<and> \<not> truthy image_url then
                   (Inr (formatError (new_WeComError minus_one msg_image_neither None)), [])
                 else if truthy image_path \<and> truthy image_url then
                   (Inr (formatError (new_WeComError minus_one msg_image_both None)), [])
                 else
                   (case new_WeComClient (Some key) of
                      Inl error \<Rightarrow> (Inr (formatError error), [])
                    | Inr client \<Rightarrow>
                        (let (result, t) =
                               (if truthy image_path then WeComClient_sendImage w client image_path
                                else WeComClient_sendImageFromUrl w client image_url)
                         in (Inr (try_format result), t))))))"

subsection \<open>handle\<close>

text \<open>\<open>ToolHandler.handle(name, args)\<close>: an unusable or unknown name is raised, not
  formatted.\<close>

definition ToolHandler_handle :: "world \<Rightarrow> json option \<Rightarrow> json \<Rightarrow> tool_result io" where
  "ToolHandler_handle w name args =
     (if \<not> truthy name \<or> \<not> is_string name then
        (Inl (new_WeComError minus_one msg_tool_name_invalid None), [])
      else if str_of name = ascii ''send_message'' then handleSendMessage w args
      else if str_of name = ascii ''send_file'' then handleSendFile w args
      else if str_of name = ascii ''send_image'' then handleSendImage w args
      else
        (Inl (new_WeComError minus_one
               (msg_unknown_tool_1 @ str_of name @ msg_unknown_tool_2) None), []))"

section \<open>The protocol router: the main entry (module index)\<close>

subsection \<open>Constants and messages\<close>

definition SERVER_INFO_description :: jsstring where
  "SERVER_INFO_description = [0x4F01, 0x4E1A, 0x5FAE, 0x4FE1, 0x673A, 0x5668, 0x4EBA]
     @ ascii '' MCP '' @ [0x670D, 0x52A1, 0xFF0C, 0x652F, 0x6301, 0x53D1, 0x9001, 0x6D88,
     0x606F, 0x3001, 0x6587, 0x4EF6, 0x548C, 0x56FE, 0x7247]"

definition msg_bad_version :: jsstring where
  "msg_bad_version = [0x4E0D, 0x652F, 0x6301, 0x7684] @ ascii '' JSON-RPC '' @ [0x7248,
     0x672C, 0xFF0C, 0x4EC5, 0x652F, 0x6301] @ ascii '' 2.0''"

definition msg_no_resources :: jsstring where
  "msg_no_resources = [0x672C, 0x670D, 0x52A1, 0x4E0D, 0x652F, 0x6301, 0x8D44, 0x6E90, 0x8BFB,
     0x53D6]"

definition msg_no_prompts :: jsstring where
  "msg_no_prompts = [0x672C, 0x670D, 0x52A1, 0x4E0D, 0x652F, 0x6301, 0x63D0, 0x793A, 0x529F,
     0x80FD]"

definition msg_unknown_method :: jsstring where
  "msg_unknown_method = [0x672A, 0x77E5, 0x65B9, 0x6CD5, 0xFF1A]"

definition msg_missing_tool_name :: jsstring where
  "msg_missing_tool_name = [0x7F3A, 0x5C11, 0x5DE5, 0x5177, 0x540D, 0x79F0]"


definition MCP_VERSION :: jsstring where
  "MCP_VERSION = ascii ''2024-11-05''"

definition SERVER_INFO :: json where
  "SERVER_INFO =
     JObj [(ascii ''name'', JStr (ascii ''wecom-robot-mcp'')),
           (ascii ''version'', JStr (ascii ''1.0.0'')),
           (ascii ''description'', JStr SERVER_INFO_description)]"

definition PARSE_ERROR :: int where "PARSE_ERROR = - 32700"
definition INVALID_REQUEST :: int where "INVALID_REQUEST = - 32600"
definition METHOD_NOT_FOUND :: int where "METHOD_NOT_FOUND = - 32601"
definition INVALID_PARAMS :: int where "INVALID_PARAMS = - 32602"
definition INTERNAL_ERROR :: int where "INTERNAL_ERROR = - 32603"

subsection \<open>Responses\<close>

text \<open>
  What a response carries besides \<open>jsonrpc: '2.0'\<close> and its identifier: a result, which is
  a JSON value or the result of a tool, or an error \<open>{code, message, data}\<close> whose \<open>data\<close>
  may be missing. A response is written to standard output as one line; an identifier
  that is \<open>undefined\<close> is not written.
\<close>

datatype payload =
    Result json
  | ToolResult tool_result
  | Error int jsstring "json option"

datatype response = Response "json option" payload

fun response_id :: "response \<Rightarrow> json option" where
  "response_id (Response i p) = i"

fun response_payload :: "response \<Rightarrow> payload" where
  "response_payload (Response i p) = p"

definition sendResponse :: "json option \<Rightarrow> payload \<Rightarrow> response" where
  "sendResponse i result = Response i result"

text \<open>\<open>sendError(id, code, message, data = null)\<close>: \<open>data\<close> is set unless it is
  \<open>null\<close>.\<close>

definition sendError :: "json option \<Rightarrow> int \<Rightarrow> jsstring \<Rightarrow> json option \<Rightarrow> response" where
  "sendError i code message data_arg =
     (let data = (case data_arg of None \<Rightarrow> JNull | Some d \<Rightarrow> d)
      in Response i (Error code message (if data \<noteq> JNull then Some data else None)))"

subsection \<open>The server\<close>

text \<open>The fields of \<open>MCPServer\<close>: the tool handler (its \<open>handle\<close>) and the readiness flag.\<close>

record MCPServer =
  toolHandler :: "json option \<Rightarrow> json \<Rightarrow> tool_result io"
  isInitialized :: bool

definition new_MCPServer :: "world \<Rightarrow> MCPServer" where
  "new_MCPServer w = \<lparr>toolHandler = ToolHandler_handle w, isInitialized = False\<rparr>"

text \<open>What handling a request gives when it does not raise: the server afterwards, the
  responses written and the events caused.\<close>

type_synonym handled = "MCPServer \<times> response list \<times> io_event list"

definition handleInitialize :: "json \<Rightarrow> response" where
  "handleInitialize request =
     sendResponse (get_prop request (ascii ''id''))
       (Result (JObj [(ascii ''protocolVersion'', JStr MCP_VERSION),
                      (ascii ''capabilities'',
                         JObj [(ascii ''tools'', JObj []),
                               (ascii ''resources'', JObj []),
                               (ascii ''prompts'', JObj [])]),
                      (ascii ''serverInfo'', SERVER_INFO)]))"

definition handleToolsList :: "json \<Rightarrow> response" where
  "handleToolsList request =
     (let toolsInfo =
            map (\<lambda>tool. JObj (members
                   [(ascii ''name'', get_prop tool (ascii ''name'')),
                    (ascii ''description'', get_prop tool (ascii ''description'')),
                    (ascii ''inputSchema'', get_prop tool (ascii ''inputSchema''))])) tools
      in sendResponse (get_prop request (ascii ''id''))
           (Result (JObj [(ascii ''tools'', JArr toolsInfo)])))"

text \<open>
  Standard error is not part of the model, but the argument of a \<open>log\<close> call is
  evaluated like any other expression, and a template literal converts what it
  interpolates to a string.

  \<open>handleToolsCall\<close>. After the check of the name and before its \<open>try\<close>, the log line
  interpolates \<open>name\<close> and \<open>this._truncateString(JSON.stringify(args), 200)\<close>:
  \<open>JSON.stringify\<close> of \<open>undefined\<close> is \<open>undefined\<close>, whose \<open>length\<close> cannot be read, so
  a call without \<open>arguments\<close> raises a TypeError here.
\<close>

definition handleToolsCall :: "world \<Rightarrow> MCPServer \<Rightarrow> json \<Rightarrow> js_error + handled" where
  "handleToolsCall w srv request =
     (let params = get_prop request (ascii ''params'');
          name = get_prop (or_empty params) (ascii ''name'');
          args = get_prop (or_empty params) (ascii ''arguments'');
          request_id = get_prop request (ascii ''id'')
      in if \<not> truthy name then
           Inr (srv,
                [sendError request_id INVALID_PARAMS (ascii ''Invalid params'')
                   (Some (JStr msg_missing_tool_name))],
                [])
         else if ToString_opt name = None then Inl (TypeError w (ascii ''toString''))
         else if args = None then Inl (TypeError w (ascii ''length''))
         else
           (case toolHandler srv name (or_empty args) of
              (Inr result, t) \<Rightarrow> Inr (srv, [sendResponse request_id (ToolResult result)], t)
            | (Inl error, t) \<Rightarrow>
                Inr (srv,
                     [sendError request_id INTERNAL_ERROR (ascii ''Tool execution failed'')
                        (Some (JStr (error_message error)))],
                     t)))"

text \<open>\<open>routeRequest\<close>, for a request that is not \<open>null\<close>. Its first statement logs the
  method.\<close>

definition routeRequest :: "world \<Rightarrow> MCPServer \<Rightarrow> json \<Rightarrow> js_error + handled" where
  "routeRequest w srv request =
     (let method = get_prop request (ascii ''method'');
          request_id = get_prop request (ascii ''id'')
      in if ToString_opt method = None then Inl (TypeError w (ascii ''toString''))
         else if method = Some (JStr (ascii ''initialize'')) then
           Inr (srv, [handleInitialize request], [])
         else if method = Some (JStr (ascii ''initialized'')) then
           Inr (srv\<lparr>isInitialized := True\<rparr>, [], [])
         else if method = Some (JStr (ascii ''ping'')) then
           Inr (srv, [sendResponse request_id (Result (JObj []))], [])
         else if method = Some (JStr (ascii ''tools/list'')) then
           Inr (srv, [handleToolsList request], [])
         else if method = Some (JStr (ascii ''tools/call'')) then
           handleToolsCall w srv request
         else if method = Some (JStr (ascii ''resources/list'')) then
           Inr (srv, [sendResponse request_id (Result (JObj [(ascii ''resources'', JArr [])]))], [])
         else if method = Some (JStr (ascii ''resources/read'')) then
           Inr (srv,
                [sendError request_id METHOD_NOT_FOUND (ascii ''Method not found'')
                   (Some (JStr msg_no_resources))],
                [])
         else if method = Some (JStr (ascii ''prompts/list'')) then
           Inr (srv, [sendResponse request_id (Result (JObj [(ascii ''prompts'', JArr [])]))], [])
         else if method = Some (JStr (ascii ''prompts/get'')) then
           Inr (srv,
                [sendError request_id METHOD_NOT_FOUND (ascii ''Method not found'')
                   (Some (JStr msg_no_prompts))],
                [])
         else
           Inr (srv,
                [sendError request_id METHOD_NOT_FOUND (ascii ''Method not found'')
                   (Some (JStr (msg_unknown_method
                                  @ (case ToString_opt method of None \<Rightarrow> [] | Some s \<Rightarrow> s))))],
                []))"

subsection \<open>handleLine\<close>

text \<open>
  A line of standard input, as \<open>trim\<close> and \<open>JSON.parse\<close> see it: blank, malformed (with
  the message of the SyntaxError) or the text of a JSON value.
\<close>

datatype input_line =
    Blank
  | Malformed jsstring
  | Json json

text \<open>
  \<open>handleLine\<close>. Two statements outside every \<open>try\<close> can raise: reading
  \<open>request.jsonrpc\<close> of the value \<open>null\<close>, and the log line of the version check,
  which interpolates \<open>request.jsonrpc\<close> before the error is sent.
\<close>

definition handleLine :: "world \<Rightarrow> MCPServer \<Rightarrow> input_line \<Rightarrow> js_error + handled" where
  "handleLine w srv line =
     (case line of
        Blank \<Rightarrow> Inr (srv, [], [])
      | Malformed message \<Rightarrow>
          Inr (srv, [sendError (Some JNull) PARSE_ERROR (ascii ''Parse error'') (Some (JStr message))], [])
      | Json request \<Rightarrow>
          (if request = JNull then Inl (TypeError w (ascii ''jsonrpc''))
           else if get_prop request (ascii ''jsonrpc'') \<noteq> Some (JStr (ascii ''2.0'')) then
             (if ToString_opt (get_prop request (ascii ''jsonrpc'')) = None then
                Inl (TypeError w (ascii ''toString''))
              else
                Inr (srv,
                     [sendError (get_prop request (ascii ''id'')) INVALID_REQUEST
                        (ascii ''Invalid Request'') (Some (JStr msg_bad_version))],
                     []))
           else
             (case routeRequest w srv request of
                Inr h \<Rightarrow> Inr h
              | Inl error \<Rightarrow>
                  Inr (srv,
                       [sendError (get_prop request (ascii ''id'')) INTERNAL_ERROR
                          (ascii ''Internal error'') (Some (JStr (error_message error)))],
                       []))))"

section \<open>Worlds for the examples\<close>

text \<open>
  A world in which every file has the same content (or the same error), every POST gets
  the answer \<open>post\<close> gives for its body, and the library functions are stand-ins. The
  examples below run the program in such worlds.
\<close>

definition mock_world ::
  "jsstring option \<Rightarrow> (js_error + 8 word list) \<Rightarrow> (post_body \<Rightarrow> js_error + json) \<Rightarrow> world" where
  "mock_world key file post =
     \<lparr>WECOM_WEBHOOK_KEY = key,
      readFile = (\<lambda>p. file),
      axios_post = (\<lambda>u b ps. post b),
      axios_get = (\<lambda>u. Inr (200, [])),
      path_basename = (\<lambda>p. p),
      path_extname = (\<lambda>p. ascii ''.png''),
      toLowerCase = (\<lambda>s. s),
      calculateMD5 = (\<lambda>b. ascii ''d41d8cd9''),
      toString_base64 = (\<lambda>b. ascii ''AAAA''),
      URL_parses = (\<lambda>u. True),
      TypeError_message = (\<lambda>p. ascii ''Cannot read properties of undefined'')\<rparr>"

text \<open>No credential configured, no file, no network.\<close>

definition offline_world :: world where
  "offline_world =
     mock_world None
       (Inl (OtherError (ascii ''Error'') (Some (ascii ''ENOENT'')) (ascii ''no such file'') None))
       (\<lambda>b. Inl (OtherError (ascii ''AxiosError'') (Some (ascii ''ECONNREFUSED''))
                  (ascii ''connect ECONNREFUSED'') None))"

text \<open>The remote answers of the examples: the plain success body, and the success body
  of an upload.\<close>

definition ok_body :: json where
  "ok_body = JObj [(ascii ''errcode'', JNum 0), (ascii ''errmsg'', JStr (ascii ''ok''))]"

definition upload_body :: json where
  "upload_body =
     JObj [(ascii ''errcode'', JNum 0), (ascii ''errmsg'', JStr (ascii ''ok'')),
           (ascii ''type'', JStr (ascii ''file'')),
           (ascii ''media_id'', JStr (ascii ''MEDIA'')),
           (ascii ''created_at'', JStr (ascii ''1380000000''))]"

text \<open>A configured credential, files of \<open>n\<close> zero bytes, and a remote that answers every
  upload with \<open>upload_body\<close> and every other POST with \<open>ok_body\<close>.\<close>

definition answering_world :: "nat \<Rightarrow> world" where
  "answering_world n =
     mock_world (Some (ascii ''KEY'')) (Inr (replicate n 0))
       (\<lambda>b. case b of JsonBody j \<Rightarrow> Inr ok_body | FormBody f name t \<Rightarrow> Inr upload_body)"

text \<open>What \<open>sendMessage\<close> returns when the remote answered \<open>data\<close> with \<open>errcode\<close> 0,
  and what \<open>uploadMedia\<close> returns when the remote answered \<open>upload_body\<close>.\<close>

definition send_result :: "json \<Rightarrow> json" where
  "send_result data =
     JObj [(ascii ''success'', JBool True),
           (ascii ''message'', JStr msg_send_ok),
           (ascii ''data'', data)]"

definition upload_result :: json where
  "upload_result =
     JObj [(ascii ''success'', JBool True),
           (ascii ''message'', JStr msg_upload_ok),
           (ascii ''media_id'', JStr (ascii ''MEDIA'')),
           (ascii ''type'', JStr (ascii ''file'')),
           (ascii ''created_at'', JStr (ascii ''1380000000''))]"

text \<open>The texts of the envelope a call resolved to, each deserialised.\<close>

definition deserialized :: "tool_result io \<Rightarrow> json list" where
  "deserialized outcome =
     (case fst outcome of
        Inl error \<Rightarrow> []
      | Inr r \<Rightarrow> map (\<lambda>item. JSON_parse (item_text item)) (content r))"

section \<open>Properties of the protocol router\<close>

lemma sendError_text:
  "sendError i code message (Some (JStr s)) = Response i (Error code message (Some (JStr s)))"
  by (simp add: sendError_def)

lemma ToString_opt_string [simp]: "ToString_opt (Some (JStr s)) = Some s"
  by (simp add: ToString_opt_def)

text \<open>
  A request whose \<open>jsonrpc\<close> member is not the string \<open>2.0\<close> (or is missing), and can be
  converted to a string for the log, is answered with the Invalid Request error, code
  -32600, under the request's own identifier, whatever the server and its tool handler
  are: nothing is routed, the server is unchanged and nothing happens outside. So is the
  line \<^verbatim>\<open>{"jsonrpc":"1.0","id":2,"method":"ping"}\<close>, with code -32600 and id 2.
\<close>

lemma invalid_version_rejected:
  assumes "request \<noteq> JNull"
    and "get_prop request (ascii ''jsonrpc'') \<noteq> Some (JStr (ascii ''2.0''))"
    and "ToString_opt (get_prop request (ascii ''jsonrpc'')) \<noteq> None"
  shows "handleLine w srv (Json request) =
           Inr (srv,
                [Response (get_prop request (ascii ''id''))
                   (Error (- 32600) (ascii ''Invalid Request'') (Some (JStr msg_bad_version)))],
                [])"
  using assms by (simp add: handleLine_def sendError_text INVALID_REQUEST_def)

lemma invalid_version_scenario:
  "handleLine offline_world (new_MCPServer offline_world)
     (Json (JObj [(ascii ''jsonrpc'', JStr (ascii ''1.0'')), (ascii ''id'', JNum 2),
                  (ascii ''method'', JStr (ascii ''ping''))])) =
   Inr (new_MCPServer offline_world,
        [Response (Some (JNum 2))
           (Error (- 32600) (ascii ''Invalid Request'') (Some (JStr msg_bad_version)))],
        [])"
  using invalid_version_rejected
    [of "JObj [(ascii ''jsonrpc'', JStr (ascii ''1.0'')), (ascii ''id'', JNum 2),
               (ascii ''method'', JStr (ascii ''ping''))]"
        offline_world "new_MCPServer offline_world"]
  by (simp add: ascii_def ToString_opt_def)

text \<open>
  Claim C5, where the code departs from it. The version check logs
  \<open>request.jsonrpc\<close> in a template literal before it sends the error, outside every
  \<open>try\<close>. For the line \<^verbatim>\<open>{"jsonrpc":{"toString":1},"id":2,"method":"ping"}\<close> the
  conversion of the version to a string raises a TypeError: \<open>handleLine\<close> raises it and
  no response is written.
\<close>

theorem unprintable_version_is_not_answered:
  "handleLine offline_world (new_MCPServer offline_world)
     (Json (JObj [(ascii ''jsonrpc'', JObj [(ascii ''toString'', JNum 1)]),
                  (ascii ''id'', JNum 2),
                  (ascii ''method'', JStr (ascii ''ping''))])) =
   Inl (TypeError offline_world (ascii ''toString''))"
  by (simp add: handleLine_def ToString_opt_def ascii_def)

lemma handleToolsCall_ids:
  "handleToolsCall w srv request = Inr (srv', rs, t) \<Longrightarrow>
   \<forall>r\<in>set rs. response_id r = get_prop request (ascii ''id'')"
  by (auto simp: handleToolsCall_def Let_def sendError_text sendResponse_def
           split: if_splits prod.splits sum.splits)

lemma routeRequest_ids:
  "routeRequest w srv request = Inr (srv', rs, t) \<Longrightarrow>
   \<forall>r\<in>set rs. response_id r = get_prop request (ascii ''id'')"
  unfolding routeRequest_def Let_def
  by (auto simp: sendError_text sendResponse_def handleInitialize_def handleToolsList_def
           dest: handleToolsCall_ids split: if_splits)

lemma handleToolsCall_one:
  "handleToolsCall w srv request = Inr (srv', rs, t) \<Longrightarrow> length rs = 1"
  by (auto simp: handleToolsCall_def Let_def split: if_splits prod.splits sum.splits)

lemma routeRequest_count:
  "routeRequest w srv request = Inr (srv', rs, t) \<Longrightarrow>
   (if get_prop request (ascii ''method'') = Some (JStr (ascii ''initialized'')) then rs = []
    else length rs = 1)"
  unfolding routeRequest_def Let_def
  by (auto simp: ascii_def dest: handleToolsCall_one split: if_splits)

lemma routeRequest_raises:
  "routeRequest w srv request = Inl e \<Longrightarrow>
   get_prop request (ascii ''method'') \<noteq> Some (JStr (ascii ''initialized''))"
  unfolding routeRequest_def Let_def
  by (auto simp: ascii_def split: if_splits)

text \<open>
  Claim C6, as amended. A request with \<open>jsonrpc: "2.0"\<close> is always handled without
  raising, and every response written for it, result or error, carries the identifier of
  the request: none when the request has none. Whether a response is written depends on
  the method and not on the identifier: the method \<open>initialized\<close> writes none, with or
  without identifier, and every other request is answered with exactly one response.
\<close>

theorem response_id_is_request_id:
  assumes "get_prop request (ascii ''jsonrpc'') = Some (JStr (ascii ''2.0''))"
  shows "\<exists>srv' rs t. handleLine w srv (Json request) = Inr (srv', rs, t)
           \<and> (\<forall>r\<in>set rs. response_id r = get_prop request (ascii ''id''))
           \<and> (if get_prop request (ascii ''method'') = Some (JStr (ascii ''initialized''))
               then rs = [] else length rs = 1)"
proof -
  from assms have nn: "request \<noteq> JNull" by auto
  show ?thesis
  proof (cases "routeRequest w srv request")
    case (Inl error)
    with assms nn routeRequest_raises [OF Inl] show ?thesis
      by (simp add: handleLine_def sendError_text)
  next
    case (Inr h)
    obtain srv' rs t where h: "h = (srv', rs, t)" by (cases h) auto
    with Inr routeRequest_ids have "\<forall>r\<in>set rs. response_id r = get_prop request (ascii ''id'')"
      by blast
    moreover from Inr h routeRequest_count
    have "if get_prop request (ascii ''method'') = Some (JStr (ascii ''initialized''))
          then rs = [] else length rs = 1"
      by blast
    ultimately show ?thesis using assms nn Inr h
      by (simp add: handleLine_def)
  qed
qed

theorem response_id_is_request_id_witness:
  "(\<exists>srv' rs t.
      handleLine offline_world (new_MCPServer offline_world)
        (Json (JObj [(ascii ''jsonrpc'', JStr (ascii ''2.0'')), (ascii ''id'', JNum 1),
                     (ascii ''method'', JStr (ascii ''ping''))])) = Inr (srv', rs, t)
      \<and> (\<forall>r\<in>set rs. response_id r = Some (JNum 1)) \<and> length rs = 1)
   \<and> handleLine offline_world (new_MCPServer offline_world)
        (Json (JObj [(ascii ''jsonrpc'', JStr (ascii ''2.0'')), (ascii ''id'', JNum 1),
                     (ascii ''method'', JStr (ascii ''ping''))])) =
      Inr (new_MCPServer offline_world, [Response (Some (JNum 1)) (Result (JObj []))], [])"
proof -
  have "get_prop (JObj [(ascii ''jsonrpc'', JStr (ascii ''2.0'')), (ascii ''id'', JNum 1),
                        (ascii ''method'', JStr (ascii ''ping''))]) (ascii ''jsonrpc'')
        = Some (JStr (ascii ''2.0''))"
    by (simp add: ascii_def)
  from response_id_is_request_id [OF this, of offline_world "new_MCPServer offline_world"]
  show ?thesis
    by (simp add: ascii_def handleLine_def routeRequest_def sendResponse_def ToString_opt_def)
qed

text \<open>
  Claim C6 as stated fails in its exception: a request without identifier is answered.
  A \<open>ping\<close> without identifier gets a result, \<open>notifications/initialized\<close> without
  identifier gets Method not found, both without identifier, and \<open>initialized\<close> with an
  identifier gets no response.
\<close>

theorem request_without_id_is_answered:
  "handleLine offline_world (new_MCPServer offline_world)
     (Json (JObj [(ascii ''jsonrpc'', JStr (ascii ''2.0'')),
                  (ascii ''method'', JStr (ascii ''ping''))])) =
     Inr (new_MCPServer offline_world, [Response None (Result (JObj []))], [])
   \<and> handleLine offline_world (new_MCPServer offline_world)
     (Json (JObj [(ascii ''jsonrpc'', JStr (ascii ''2.0'')),
                  (ascii ''method'', JStr (ascii ''notifications/initialized''))])) =
     Inr (new_MCPServer offline_world,
          [Response None
             (Error (- 32601) (ascii ''Method not found'')
                (Some (JStr (msg_unknown_method @ ascii ''notifications/initialized''))))],
          [])
   \<and> handleLine offline_world (new_MCPServer offline_world)
     (Json (JObj [(ascii ''jsonrpc'', JStr (ascii ''2.0'')), (ascii ''id'', JNum 5),
                  (ascii ''method'', JStr (ascii ''initialized''))])) =
     Inr ((new_MCPServer offline_world)\<lparr>isInitialized := True\<rparr>, [], [])"
  by (simp add: handleLine_def routeRequest_def sendResponse_def sendError_text
                METHOD_NOT_FOUND_def Let_def ascii_def)

lemma handleToolsCall_flag:
  "map_sum id snd (handleToolsCall w (srv\<lparr>isInitialized := a\<rparr>) request) =
   map_sum id snd (handleToolsCall w (srv\<lparr>isInitialized := b\<rparr>) request)"
  by (simp add: handleToolsCall_def Let_def split: prod.splits sum.splits)

lemma routeRequest_flag:
  "map_sum id snd (routeRequest w (srv\<lparr>isInitialized := a\<rparr>) request) =
   map_sum id snd (routeRequest w (srv\<lparr>isInitialized := b\<rparr>) request)"
  unfolding routeRequest_def Let_def
  by (simp split del: if_split cong: if_cong
           add: if_distrib [of "map_sum id snd"] handleToolsCall_flag [where a = a and b = b])

text \<open>
  Claim C9. The responses written for a line, the events caused and the error raised, if
  any, are the same whatever the value of the readiness flag: no handler reads it.
\<close>

theorem readiness_flag_is_advisory:
  "map_sum id snd (handleLine w (srv\<lparr>isInitialized := a\<rparr>) line) =
   map_sum id snd (handleLine w (srv\<lparr>isInitialized := b\<rparr>) line)"
proof (cases line)
  case Blank
  then show ?thesis by (simp add: handleLine_def)
next
  case (Malformed message)
  then show ?thesis by (simp add: handleLine_def)
next
  case (Json request)
  have *: "map_sum id snd (routeRequest w (srv\<lparr>isInitialized := a\<rparr>) request) =
           map_sum id snd (routeRequest w (srv\<lparr>isInitialized := b\<rparr>) request)"
    by (rule routeRequest_flag)
  show ?thesis
  proof (cases "routeRequest w (srv\<lparr>isInitialized := a\<rparr>) request")
    case (Inl e)
    with * obtain e' where "routeRequest w (srv\<lparr>isInitialized := b\<rparr>) request = Inl e'" "e' = e"
      by (cases "routeRequest w (srv\<lparr>isInitialized := b\<rparr>) request") auto
    with Inl Json show ?thesis by (simp add: handleLine_def)
  next
    case (Inr h)
    with * obtain h' where "routeRequest w (srv\<lparr>isInitialized := b\<rparr>) request = Inr h'" "snd h' = snd h"
      by (cases "routeRequest w (srv\<lparr>isInitialized := b\<rparr>) request") auto
    with Inr Json show ?thesis by (simp add: handleLine_def)
  qed
qed

text \<open>
  Claim C10. A \<open>tools/call\<close> request without \<open>params\<close>, or whose \<open>params\<close> have no \<open>name\<close>,
  is answered with the Invalid Params error, code -32602, under the request's identifier.
  The answer is the same for every server, so for every tool handler: the handler is not
  called, and nothing happens outside.
\<close>

theorem tools_call_without_name:
  assumes "get_prop request (ascii ''jsonrpc'') = Some (JStr (ascii ''2.0''))"
    and "get_prop request (ascii ''method'') = Some (JStr (ascii ''tools/call''))"
    and "get_prop request (ascii ''params'') = None
         \<or> (\<exists>params. get_prop request (ascii ''params'') = Some params
               \<and> get_prop params (ascii ''name'') = None)"
  shows "handleLine w srv (Json request) =
           Inr (srv,
                [Response (get_prop request (ascii ''id''))
                   (Error (- 32602) (ascii ''Invalid params'') (Some (JStr msg_missing_tool_name)))],
                [])"
proof -
  from assms(1) have nn: "request \<noteq> JNull" by auto
  from assms(3)
  have "\<not> truthy (get_prop (or_empty (get_prop request (ascii ''params''))) (ascii ''name''))"
    by (auto simp: or_empty_def split: if_splits)
  then have "handleToolsCall w srv request =
           Inr (srv,
                [Response (get_prop request (ascii ''id''))
                   (Error (- 32602) (ascii ''Invalid params'') (Some (JStr msg_missing_tool_name)))],
                [])"
    by (simp add: handleToolsCall_def Let_def sendError_text INVALID_PARAMS_def)
  moreover have "routeRequest w srv request = handleToolsCall w srv request"
    using assms(2) by (simp add: routeRequest_def Let_def ascii_def ToString_opt_def)
  ultimately show ?thesis using assms(1) nn
    by (simp add: handleLine_def)
qed

theorem tools_call_without_name_witness:
  "handleLine offline_world (new_MCPServer offline_world)
     (Json (JObj [(ascii ''jsonrpc'', JStr (ascii ''2.0'')), (ascii ''id'', JNum 7),
                  (ascii ''method'', JStr (ascii ''tools/call'')),
                  (ascii ''params'', JObj [(ascii ''arguments'', JObj [])])])) =
   Inr (new_MCPServer offline_world,
        [Response (Some (JNum 7))
           (Error (- 32602) (ascii ''Invalid params'') (Some (JStr msg_missing_tool_name)))],
        [])
   \<and> handleLine offline_world (new_MCPServer offline_world)
     (Json (JObj [(ascii ''jsonrpc'', JStr (ascii ''2.0'')), (ascii ''id'', JNum 8),
                  (ascii ''method'', JStr (ascii ''tools/call''))])) =
   Inr (new_MCPServer offline_world,
        [Response (Some (JNum 8))
           (Error (- 32602) (ascii ''Invalid params'') (Some (JStr msg_missing_tool_name)))],
        [])"
  using tools_call_without_name
    [of "JObj [(ascii ''jsonrpc'', JStr (ascii ''2.0'')), (ascii ''id'', JNum 7),
               (ascii ''method'', JStr (ascii ''tools/call'')),
               (ascii ''params'', JObj [(ascii ''arguments'', JObj [])])]"
        offline_world "new_MCPServer offline_world"]
    tools_call_without_name
    [of "JObj [(ascii ''jsonrpc'', JStr (ascii ''2.0'')), (ascii ''id'', JNum 8),
               (ascii ''method'', JStr (ascii ''tools/call''))]"
        offline_world "new_MCPServer offline_world"]
  by (simp add: ascii_def)

section \<open>Properties of the dispatcher and the client\<close>

subsection \<open>The credential, the client and the markdown message\<close>

lemma getWebhookKey_none:
  assumes "WECOM_WEBHOOK_KEY w = None \<or> WECOM_WEBHOOK_KEY w = Some []"
    and "\<not> truthy providedKey"
  shows "getWebhookKey w providedKey = Inl (WeComError (Some (JNum (- 1))) msg_no_webhook_key (JObj []))"
  using assms
  by (auto simp: getWebhookKey_def DEFAULT_WEBHOOK_KEY_def or_else_def Let_def
                 new_WeComError_def minus_one_def split: option.splits)

lemma getWebhookKey_Inl:
  "getWebhookKey w p = Inl e \<Longrightarrow> e = WeComError (Some (JNum (- 1))) msg_no_webhook_key (JObj [])"
  by (auto simp: getWebhookKey_def Let_def new_WeComError_def minus_one_def
           split: option.splits if_splits)

lemma getWebhookKey_Inr:
  "getWebhookKey w p = Inr k \<Longrightarrow> truthy (Some k)"
  by (auto simp: getWebhookKey_def Let_def split: option.splits if_splits)

lemma new_WeComClient_Inl:
  "new_WeComClient k = Inl e \<Longrightarrow> e = WeComError (Some (JNum (- 1))) msg_webhookKey_invalid (JObj [])"
  by (auto simp: new_WeComClient_def new_WeComError_def minus_one_def split: if_splits)

lemma new_WeComClient_string:
  "s \<noteq> [] \<Longrightarrow> new_WeComClient (Some (JStr s)) = Inr s"
  by (simp add: new_WeComClient_def)

lemma byteLength_ascii: "\<forall>c\<in>set s. c < 0x80 \<Longrightarrow> byteLength_utf8 s = length s"
  by (induction s rule: byteLength_utf8.induct) auto

lemma sendMessage_events:
  "snd (WeComClient_sendMessage w key msgType c) =
     [HttpPost (BASE_URL @ ascii ''/send'')
        (JsonBody (JObj [(ascii ''msgtype'', JStr msgType), (msgType, c)]))
        [(ascii ''key'', key)]]"
  by (simp add: WeComClient_sendMessage_def Let_def)

lemma sendMarkdownV2_invalid:
  "\<not> truthy c \<or> \<not> is_string c \<or> byteLength_utf8 (str_of c) > 4096 \<Longrightarrow>
   \<exists>m. WeComClient_sendMarkdownV2 w key c =
         (Inl (WeComError (Some (JNum (- 1))) m (JObj [])), [])"
  by (auto simp: WeComClient_sendMarkdownV2_def Let_def new_WeComError_def minus_one_def
                 MARKDOWN_MAX_BYTES_def)

lemma sendMarkdownV2_valid:
  "s \<noteq> [] \<Longrightarrow> byteLength_utf8 s \<le> 4096 \<Longrightarrow>
   WeComClient_sendMarkdownV2 w key (Some (JStr s)) =
     WeComClient_sendMessage w key (ascii ''markdown_v2'') (JObj [(ascii ''content'', JStr s)])"
  by (simp add: WeComClient_sendMarkdownV2_def Let_def MARKDOWN_MAX_BYTES_def)

lemma handle_send_message:
  "ToolHandler_handle w (Some (JStr (ascii ''send_message''))) args = handleSendMessage w args"
  by (simp add: ToolHandler_handle_def ascii_def)

lemma handle_send_file:
  "ToolHandler_handle w (Some (JStr (ascii ''send_file''))) args = handleSendFile w args"
  by (simp add: ToolHandler_handle_def ascii_def)

lemma handle_send_image:
  "ToolHandler_handle w (Some (JStr (ascii ''send_image''))) args = handleSendImage w args"
  by (simp add: ToolHandler_handle_def ascii_def)

lemma handleSendMessage_invalid:
  assumes "args \<noteq> JNull"
    and "\<not> truthy (get_prop args (ascii ''content'')) \<or> \<not> is_string (get_prop args (ascii ''content''))
         \<or> byteLength_utf8 (str_of (get_prop args (ascii ''content''))) > 4096"
  shows "\<exists>m. handleSendMessage w args =
           (Inr (formatError (WeComError (Some (JNum (- 1))) m (JObj []))), [])"
proof (cases "getWebhookKey w (get_prop args (ascii ''webhook_key''))")
  case (Inl e)
  with assms(1) getWebhookKey_Inl [OF Inl] show ?thesis
    by (auto simp: handleSendMessage_def)
next
  case (Inr key)
  show ?thesis
  proof (cases "\<not> truthy (get_prop args (ascii ''content'')) \<or> \<not> is_string (get_prop args (ascii ''content''))")
    case True
    with assms(1) Inr show ?thesis
      by (auto simp: handleSendMessage_def new_WeComError_def minus_one_def)
  next
    case False
    show ?thesis
    proof (cases "new_WeComClient (Some key)")
      case (Inl e)
      with assms(1) Inr False new_WeComClient_Inl [OF Inl] show ?thesis
        by (auto simp: handleSendMessage_def)
    next
      case (Inr client)
      from sendMarkdownV2_invalid [OF assms(2)] obtain m where
        "WeComClient_sendMarkdownV2 w client (get_prop args (ascii ''content'')) =
           (Inl (WeComError (Some (JNum (- 1))) m (JObj [])), [])" by blast
      with assms(1) \<open>getWebhookKey w (get_prop args (ascii ''webhook_key'')) = Inr key\<close> False Inr
      show ?thesis
        by (auto simp: handleSendMessage_def try_format_def)
    qed
  qed
qed

lemma handleSendMessage_forwards:
  assumes "args \<noteq> JNull"
    and "getWebhookKey w (get_prop args (ascii ''webhook_key'')) = Inr (JStr key)"
    and "get_prop args (ascii ''content'') = Some (JStr s)"
    and "s \<noteq> []" and "byteLength_utf8 s \<le> 4096"
  shows "handleSendMessage w args =
           (Inr (try_format (fst (WeComClient_sendMessage w key (ascii ''markdown_v2'')
                                    (JObj [(ascii ''content'', JStr s)])))),
            [HttpPost (BASE_URL @ ascii ''/send'')
               (JsonBody (JObj [(ascii ''msgtype'', JStr (ascii ''markdown_v2'')),
                                (ascii ''markdown_v2'', JObj [(ascii ''content'', JStr s)])]))
               [(ascii ''key'', key)]])"
proof -
  from getWebhookKey_Inr [OF assms(2)] have k: "key \<noteq> []" by simp
  have ev: "snd (WeComClient_sendMessage w key (ascii ''markdown_v2'') (JObj [(ascii ''content'', JStr s)])) =
     [HttpPost (BASE_URL @ ascii ''/send'')
               (JsonBody (JObj [(ascii ''msgtype'', JStr (ascii ''markdown_v2'')),
                                (ascii ''markdown_v2'', JObj [(ascii ''content'', JStr s)])]))
               [(ascii ''key'', key)]]"
    by (rule sendMessage_events)
  show ?thesis
    using assms new_WeComClient_string [OF k] sendMarkdownV2_valid [OF assms(4,5), of w key] ev
    by (simp add: handleSendMessage_def split_beta)
qed

lemma answering_world_key:
  "getWebhookKey (answering_world n) None = Inr (JStr (ascii ''KEY''))"
  by (simp add: getWebhookKey_def DEFAULT_WEBHOOK_KEY_def or_else_def answering_world_def
                mock_world_def ascii_def)

text \<open>
  Claim C3. \<open>send_message\<close> on an argument record whose \<open>content\<close> is missing, empty, not a
  string, or a string of more than 4096 bytes in UTF-8 resolves to the error envelope of a
  WeComError with code -1 and causes no event at all, so no network call. When the
  credential resolves to a string and \<open>content\<close> is a non-empty string of at most 4096
  bytes, the one event is the POST to \<open>/send\<close> of the message type \<open>markdown_v2\<close> carrying
  that content, and the envelope is made from what \<open>sendMessage\<close> gave. The witness runs
  the two sides of the limit: 4097 letters fail, 4096 letters are posted.
\<close>

theorem send_message_content_limit:
  assumes "args \<noteq> JNull"
  shows "(\<not> truthy (get_prop args (ascii ''content''))
          \<or> \<not> is_string (get_prop args (ascii ''content''))
          \<or> byteLength_utf8 (str_of (get_prop args (ascii ''content''))) > 4096
          \<longrightarrow> (\<exists>m. ToolHandler_handle w (Some (JStr (ascii ''send_message''))) args =
                     (Inr (formatError (WeComError (Some (JNum (- 1))) m (JObj []))), [])))
       \<and> (\<forall>key s.
             getWebhookKey w (get_prop args (ascii ''webhook_key'')) = Inr (JStr key)
             \<and> get_prop args (ascii ''content'') = Some (JStr s)
             \<and> s \<noteq> [] \<and> byteLength_utf8 s \<le> 4096
             \<longrightarrow> ToolHandler_handle w (Some (JStr (ascii ''send_message''))) args =
                   (Inr (try_format (fst (WeComClient_sendMessage w key (ascii ''markdown_v2'')
                                            (JObj [(ascii ''content'', JStr s)])))),
                    [HttpPost (BASE_URL @ ascii ''/send'')
                       (JsonBody (JObj [(ascii ''msgtype'', JStr (ascii ''markdown_v2'')),
                                        (ascii ''markdown_v2'',
                                           JObj [(ascii ''content'', JStr s)])]))
                       [(ascii ''key'', key)]]))"
  using handleSendMessage_invalid [OF assms, of w] handleSendMessage_forwards [OF assms, of w]
  by (simp only: handle_send_message) blast

theorem send_message_content_limit_witness:
  "(\<exists>m. ToolHandler_handle (answering_world 6) (Some (JStr (ascii ''send_message'')))
           (JObj [(ascii ''content'', JStr (replicate 4097 0x61))]) =
         (Inr (formatError (WeComError (Some (JNum (- 1))) m (JObj []))), []))
   \<and> ToolHandler_handle (answering_world 6) (Some (JStr (ascii ''send_message'')))
        (JObj [(ascii ''content'', JStr (replicate 4096 0x61))]) =
      (Inr (try_format (fst (WeComClient_sendMessage (answering_world 6) (ascii ''KEY'')
                               (ascii ''markdown_v2'')
                               (JObj [(ascii ''content'', JStr (replicate 4096 0x61))])))),
       [HttpPost (BASE_URL @ ascii ''/send'')
          (JsonBody (JObj [(ascii ''msgtype'', JStr (ascii ''markdown_v2'')),
                           (ascii ''markdown_v2'',
                              JObj [(ascii ''content'', JStr (replicate 4096 0x61))])]))
          [(ascii ''key'', ascii ''KEY'')]])"
proof -
  have k: "getWebhookKey (answering_world 6) None = Inr (JStr (ascii ''KEY''))"
    by (simp add: getWebhookKey_def DEFAULT_WEBHOOK_KEY_def or_else_def answering_world_def
                  mock_world_def ascii_def)
  have wk: "ascii ''webhook_key'' \<noteq> ascii ''content''"
    by (simp add: ascii_def)
  have b1: "byteLength_utf8 (replicate 4097 0x61) = 4097"
    by (simp add: byteLength_ascii)
  have b2: "byteLength_utf8 (replicate 4096 0x61) = 4096"
    by (simp add: byteLength_ascii)
  show ?thesis
    using send_message_content_limit
            [of "JObj [(ascii ''content'', JStr (replicate 4097 0x61))]" "answering_world 6"]
          send_message_content_limit
            [of "JObj [(ascii ''content'', JStr (replicate 4096 0x61))]" "answering_world 6"]
    by (simp add: k wk b1 b2)
qed

text \<open>
  Claim C7. With no default credential (the environment variable unset or empty) and no
  truthy \<open>webhook_key\<close> in the arguments, each of \<open>send_message\<close>, \<open>send_file\<close> and
  \<open>send_image\<close> resolves to the error envelope of the WeComError with code -1 whose message
  says that no \<open>webhook_key\<close> was given and \<open>WECOM_WEBHOOK_KEY\<close> is not set, and causes no
  event.
\<close>

theorem no_credential_fails:
  assumes "WECOM_WEBHOOK_KEY w = None \<or> WECOM_WEBHOOK_KEY w = Some []"
    and "args \<noteq> JNull"
    and "\<not> truthy (get_prop args (ascii ''webhook_key''))"
    and "name = ascii ''send_message'' \<or> name = ascii ''send_file'' \<or> name = ascii ''send_image''"
  shows "ToolHandler_handle w (Some (JStr name)) args =
           (Inr (formatError (WeComError (Some (JNum (- 1))) msg_no_webhook_key (JObj []))), [])"
proof -
  note k = getWebhookKey_none [OF assms(1) assms(3)]
  from assms(4) show ?thesis
  proof (elim disjE)
    assume "name = ascii ''send_message''"
    with k assms(2) show ?thesis
      by (simp add: handle_send_message handleSendMessage_def)
  next
    assume "name = ascii ''send_file''"
    with k assms(2) show ?thesis
      by (simp add: handle_send_file handleSendFile_def)
  next
    assume "name = ascii ''send_image''"
    with k assms(2) show ?thesis
      by (simp add: handle_send_image handleSendImage_def)
  qed
qed

theorem no_credential_fails_witness:
  "ToolHandler_handle offline_world (Some (JStr (ascii ''send_message'')))
     (JObj [(ascii ''content'', JStr (ascii ''hello''))]) =
     (Inr (formatError (WeComError (Some (JNum (- 1))) msg_no_webhook_key (JObj []))), [])
   \<and> ToolHandler_handle offline_world (Some (JStr (ascii ''send_file'')))
     (JObj [(ascii ''file_path'', JStr (ascii ''/tmp/report.pdf''))]) =
     (Inr (formatError (WeComError (Some (JNum (- 1))) msg_no_webhook_key (JObj []))), [])
   \<and> ToolHandler_handle offline_world (Some (JStr (ascii ''send_image'')))
     (JObj [(ascii ''image_path'', JStr (ascii ''/tmp/a.png''))]) =
     (Inr (formatError (WeComError (Some (JNum (- 1))) msg_no_webhook_key (JObj []))), [])"
proof -
  have e: "WECOM_WEBHOOK_KEY offline_world = None \<or> WECOM_WEBHOOK_KEY offline_world = Some []"
    by (simp add: offline_world_def mock_world_def)
  have n: "\<And>k v. k \<noteq> ascii ''webhook_key'' \<Longrightarrow>
             \<not> truthy (get_prop (JObj [(k, v)]) (ascii ''webhook_key''))"
    by simp
  have d: "ascii ''content'' \<noteq> ascii ''webhook_key''" "ascii ''file_path'' \<noteq> ascii ''webhook_key''"
    "ascii ''image_path'' \<noteq> ascii ''webhook_key''"
    by (simp_all add: ascii_def)
  show ?thesis
    using no_credential_fails [OF e _ n [OF d(1)], where name = "ascii ''send_message''"]
          no_credential_fails [OF e _ n [OF d(2)], where name = "ascii ''send_file''"]
          no_credential_fails [OF e _ n [OF d(3)], where name = "ascii ''send_image''"]
    by simp
qed

subsection \<open>Images\<close>

lemma handleSendImage_invalid:
  assumes "args \<noteq> JNull"
    and "(truthy (get_prop args (ascii ''image_path'')) \<and> truthy (get_prop args (ascii ''image_url'')))
         \<or> (\<not> truthy (get_prop args (ascii ''image_path''))
              \<and> \<not> truthy (get_prop args (ascii ''image_url'')))"
  shows "\<exists>m. handleSendImage w args =
           (Inr (formatError (WeComError (Some (JNum (- 1))) m (JObj []))), [])"
proof (cases "getWebhookKey w (get_prop args (ascii ''webhook_key''))")
  case (Inl e)
  with assms(1) getWebhookKey_Inl [OF Inl] show ?thesis
    by (auto simp: handleSendImage_def)
next
  case (Inr key)
  with assms show ?thesis
    by (auto simp: handleSendImage_def new_WeComError_def minus_one_def)
qed

lemma handleSendImage_path:
  assumes "args \<noteq> JNull"
    and "getWebhookKey w (get_prop args (ascii ''webhook_key'')) = Inr (JStr key)"
    and "truthy (get_prop args (ascii ''image_path''))"
    and "\<not> truthy (get_prop args (ascii ''image_url''))"
  shows "handleSendImage w args =
           (Inr (try_format (fst (WeComClient_sendImage w key (get_prop args (ascii ''image_path''))))),
            snd (WeComClient_sendImage w key (get_prop args (ascii ''image_path''))))"
proof -
  from getWebhookKey_Inr [OF assms(2)] have k: "key \<noteq> []" by simp
  show ?thesis
    using assms new_WeComClient_string [OF k]
    by (simp add: handleSendImage_def split_beta Let_def)
qed

lemma handleSendImage_url:
  assumes "args \<noteq> JNull"
    and "getWebhookKey w (get_prop args (ascii ''webhook_key'')) = Inr (JStr key)"
    and "\<not> truthy (get_prop args (ascii ''image_path''))"
    and "truthy (get_prop args (ascii ''image_url''))"
  shows "handleSendImage w args =
           (Inr (try_format (fst (WeComClient_sendImageFromUrl w key (get_prop args (ascii ''image_url''))))),
            snd (WeComClient_sendImageFromUrl w key (get_prop args (ascii ''image_url''))))"
proof -
  from getWebhookKey_Inr [OF assms(2)] have k: "key \<noteq> []" by simp
  show ?thesis
    using assms new_WeComClient_string [OF k]
    by (simp add: handleSendImage_def split_beta Let_def)
qed

text \<open>
  Claim C4. A value is supplied when it is truthy. \<open>send_image\<close> with both of
  \<open>image_path\<close> and \<open>image_url\<close> supplied, or with neither, resolves to the error envelope
  of a WeComError with code -1 and causes no event. With a credential that resolves to a
  string and exactly one of the two supplied, the outcome and the events are those of
  \<open>sendImage\<close> on the path, respectively of \<open>sendImageFromUrl\<close> on the URL.
\<close>

theorem send_image_exactly_one:
  assumes "args \<noteq> JNull"
  shows "((truthy (get_prop args (ascii ''image_path'')) \<and> truthy (get_prop args (ascii ''image_url'')))
          \<or> (\<not> truthy (get_prop args (ascii ''image_path''))
               \<and> \<not> truthy (get_prop args (ascii ''image_url'')))
          \<longrightarrow> (\<exists>m. ToolHandler_handle w (Some (JStr (ascii ''send_image''))) args =
                     (Inr (formatError (WeComError (Some (JNum (- 1))) m (JObj []))), [])))
       \<and> (\<forall>key. getWebhookKey w (get_prop args (ascii ''webhook_key'')) = Inr (JStr key) \<longrightarrow>
            (truthy (get_prop args (ascii ''image_path''))
             \<and> \<not> truthy (get_prop args (ascii ''image_url''))
             \<longrightarrow> ToolHandler_handle w (Some (JStr (ascii ''send_image''))) args =
                   (Inr (try_format (fst (WeComClient_sendImage w key
                                            (get_prop args (ascii ''image_path''))))),
                    snd (WeComClient_sendImage w key (get_prop args (ascii ''image_path'')))))
            \<and> (\<not> truthy (get_prop args (ascii ''image_path''))
               \<and> truthy (get_prop args (ascii ''image_url''))
               \<longrightarrow> ToolHandler_handle w (Some (JStr (ascii ''send_image''))) args =
                     (Inr (try_format (fst (WeComClient_sendImageFromUrl w key
                                              (get_prop args (ascii ''image_url''))))),
                      snd (WeComClient_sendImageFromUrl w key
                             (get_prop args (ascii ''image_url''))))))"
  using handleSendImage_invalid [OF assms, of w] handleSendImage_path [OF assms, of w]
        handleSendImage_url [OF assms, of w]
  by (simp only: handle_send_image) blast

theorem send_image_exactly_one_witness:
  "(\<exists>m. ToolHandler_handle (answering_world 6) (Some (JStr (ascii ''send_image'')))
           (JObj [(ascii ''image_path'', JStr (ascii ''/tmp/a.png'')),
                  (ascii ''image_url'', JStr (ascii ''https://example.com/a.png''))]) =
         (Inr (formatError (WeComError (Some (JNum (- 1))) m (JObj []))), []))
   \<and> (\<exists>m. ToolHandler_handle (answering_world 6) (Some (JStr (ascii ''send_image''))) (JObj []) =
         (Inr (formatError (WeComError (Some (JNum (- 1))) m (JObj []))), []))
   \<and> ToolHandler_handle (answering_world 6) (Some (JStr (ascii ''send_image'')))
        (JObj [(ascii ''image_path'', JStr (ascii ''/tmp/a.png''))]) =
      (Inr (try_format (fst (WeComClient_sendImage (answering_world 6) (ascii ''KEY'')
                               (Some (JStr (ascii ''/tmp/a.png'')))))),
       snd (WeComClient_sendImage (answering_world 6) (ascii ''KEY'')
              (Some (JStr (ascii ''/tmp/a.png'')))))
   \<and> ToolHandler_handle (answering_world 6) (Some (JStr (ascii ''send_image'')))
        (JObj [(ascii ''image_url'', JStr (ascii ''https://example.com/a.png''))]) =
      (Inr (try_format (fst (WeComClient_sendImageFromUrl (answering_world 6) (ascii ''KEY'')
                               (Some (JStr (ascii ''https://example.com/a.png'')))))),
       snd (WeComClient_sendImageFromUrl (answering_world 6) (ascii ''KEY'')
              (Some (JStr (ascii ''https://example.com/a.png'')))))"
  using send_image_exactly_one
          [of "JObj [(ascii ''image_path'', JStr (ascii ''/tmp/a.png'')),
                     (ascii ''image_url'', JStr (ascii ''https://example.com/a.png''))]"
              "answering_world 6"]
        send_image_exactly_one [of "JObj []" "answering_world 6"]
        send_image_exactly_one
          [of "JObj [(ascii ''image_path'', JStr (ascii ''/tmp/a.png''))]" "answering_world 6"]
        send_image_exactly_one
          [of "JObj [(ascii ''image_url'', JStr (ascii ''https://example.com/a.png''))]"
              "answering_world 6"]
  by (simp add: answering_world_key ascii_def)

subsection \<open>What the handlers resolve to\<close>

lemma new_WeComError_is [simp]: "is_WeComError (new_WeComError c m d)"
  by (simp add: new_WeComError_def)

lemma sendMessage_catch_WeComError [simp]: "is_WeComError (sendMessage_catch e)"
  by (auto simp: sendMessage_catch_def split: js_error.splits option.splits)

lemma uploadMedia_catch_WeComError [simp]: "is_WeComError (uploadMedia_catch p e)"
  by (auto simp: uploadMedia_catch_def split: js_error.splits option.splits)

lemma sendImage_catch_WeComError [simp]: "is_WeComError (sendImage_catch p e)"
  by (auto simp: sendImage_catch_def split: js_error.splits option.splits)

lemma sendImageFromUrl_catch_WeComError [simp]: "is_WeComError (sendImageFromUrl_catch e)"
  by (auto simp: sendImageFromUrl_catch_def split: js_error.splits option.splits)



















subsection \<open>A successful send\<close>

lemma sendMessage_ok:
  assumes "axios_post w (BASE_URL @ ascii ''/send'')
             (JsonBody (JObj [(ascii ''msgtype'', JStr t), (t, c)])) [(ascii ''key'', k)] = Inr body"
    and "body \<noteq> JNull" and "get_prop body (ascii ''errcode'') = Some (JNum 0)"
  shows "WeComClient_sendMessage w k t c =
           (Inr (send_result body),
            [HttpPost (BASE_URL @ ascii ''/send'')
               (JsonBody (JObj [(ascii ''msgtype'', JStr t), (t, c)])) [(ascii ''key'', k)]])"
  using assms by (simp add: WeComClient_sendMessage_def Let_def send_result_def)

lemma ok_body_facts:
  "ok_body \<noteq> JNull" "get_prop ok_body (ascii ''errcode'') = Some (JNum 0)"
  by (simp_all add: ok_body_def ascii_def)

lemma send_result_members:
  "get_prop (send_result body) (ascii ''errcode'') = None"
  "get_prop (send_result body) (ascii ''data'') = Some body"
  by (simp_all add: send_result_def ascii_def)

lemma handleSendMessage_ok:
  assumes "args \<noteq> JNull"
    and "getWebhookKey w (get_prop args (ascii ''webhook_key'')) = Inr (JStr key)"
    and "get_prop args (ascii ''content'') = Some (JStr s)"
    and "s \<noteq> []" and "byteLength_utf8 s \<le> 4096"
    and "axios_post w (BASE_URL @ ascii ''/send'')
           (JsonBody (JObj [(ascii ''msgtype'', JStr (ascii ''markdown_v2'')),
                            (ascii ''markdown_v2'', JObj [(ascii ''content'', JStr s)])]))
           [(ascii ''key'', key)] = Inr ok_body"
  shows "fst (handleSendMessage w args) = Inr (formatSuccess (send_result ok_body))"
proof -
  have "WeComClient_sendMessage w key (ascii ''markdown_v2'') (JObj [(ascii ''content'', JStr s)]) =
           (Inr (send_result ok_body),
            [HttpPost (BASE_URL @ ascii ''/send'')
               (JsonBody (JObj [(ascii ''msgtype'', JStr (ascii ''markdown_v2'')),
                                (ascii ''markdown_v2'', JObj [(ascii ''content'', JStr s)])]))
               [(ascii ''key'', key)]])"
    using assms(6) ok_body_facts by (rule sendMessage_ok)
  with handleSendMessage_forwards [OF assms(1-5)] show ?thesis
    by (simp add: try_format_def)
qed

lemma handleSendImage_path_ok:
  assumes "args \<noteq> JNull"
    and "getWebhookKey w (get_prop args (ascii ''webhook_key'')) = Inr (JStr key)"
    and "get_prop args (ascii ''image_path'') = Some (JStr p)" and "p \<noteq> []"
    and "\<not> truthy (get_prop args (ascii ''image_url''))"
    and "readFile w p = Inr bytes"
    and "toLowerCase w (drop 1 (path_extname w p)) \<in> set SUPPORTED_IMAGE_FORMATS"
    and "length bytes \<le> IMAGE_LIMIT"
    and "axios_post w (BASE_URL @ ascii ''/send'')
           (JsonBody (JObj [(ascii ''msgtype'', JStr (ascii ''image'')),
                            (ascii ''image'', image_content w bytes)]))
           [(ascii ''key'', key)] = Inr ok_body"
  shows "fst (handleSendImage w args) = Inr (formatSuccess (send_result ok_body))"
proof -
  have "WeComClient_sendMessage w key (ascii ''image'') (image_content w bytes) =
           (Inr (send_result ok_body),
            [HttpPost (BASE_URL @ ascii ''/send'')
               (JsonBody (JObj [(ascii ''msgtype'', JStr (ascii ''image'')),
                                (ascii ''image'', image_content w bytes)]))
               [(ascii ''key'', key)]])"
    using assms(9) ok_body_facts by (rule sendMessage_ok)
  then have "fst (WeComClient_sendImage w key (Some (JStr p))) = Inr (send_result ok_body)"
    using assms(4,6,7,8) by (simp add: WeComClient_sendImage_def Let_def)
  moreover have "truthy (get_prop args (ascii ''image_path''))"
    using assms(3,4) by simp
  ultimately show ?thesis
    using handleSendImage_path [OF assms(1,2) _ assms(5)] assms(3)
    by (simp add: try_format_def)
qed

lemma handleSendImage_url_ok:
  assumes "args \<noteq> JNull"
    and "getWebhookKey w (get_prop args (ascii ''webhook_key'')) = Inr (JStr key)"
    and "\<not> truthy (get_prop args (ascii ''image_path''))"
    and "get_prop args (ascii ''image_url'') = Some (JStr u)" and "u \<noteq> []"
    and "URL_parses w u"
    and "axios_get w u = Inr (200, bytes)"
    and "length bytes \<le> IMAGE_LIMIT"
    and "axios_post w (BASE_URL @ ascii ''/send'')
           (JsonBody (JObj [(ascii ''msgtype'', JStr (ascii ''image'')),
                            (ascii ''image'', image_content w bytes)]))
           [(ascii ''key'', key)] = Inr ok_body"
  shows "fst (handleSendImage w args) = Inr (formatSuccess (send_result ok_body))"
proof -
  have "WeComClient_sendMessage w key (ascii ''image'') (image_content w bytes) =
           (Inr (send_result ok_body),
            [HttpPost (BASE_URL @ ascii ''/send'')
               (JsonBody (JObj [(ascii ''msgtype'', JStr (ascii ''image'')),
                                (ascii ''image'', image_content w bytes)]))
               [(ascii ''key'', key)]])"
    using assms(9) ok_body_facts by (rule sendMessage_ok)
  then have "fst (WeComClient_sendImageFromUrl w key (Some (JStr u))) = Inr (send_result ok_body)"
    using assms(5,6,7,8) by (simp add: WeComClient_sendImageFromUrl_def Let_def)
  moreover have "truthy (get_prop args (ascii ''image_url''))"
    using assms(4,5) by simp
  ultimately show ?thesis
    using handleSendImage_url [OF assms(1,2,3)] assms(4)
    by (simp add: try_format_def)
qed

lemma handleSendFile_ok:
  assumes "args \<noteq> JNull"
    and "getWebhookKey w (get_prop args (ascii ''webhook_key'')) = Inr (JStr key)"
    and "get_prop args (ascii ''file_path'') = Some (JStr p)" and "p \<noteq> []"
    and "readFile w p = Inr bytes" and "5 < length bytes"
    and "axios_post w (BASE_URL @ ascii ''/upload_media'')
           (FormBody bytes (path_basename w p) (getMimeType w p))
           [(ascii ''key'', key), (ascii ''type'', ascii ''file'')] = Inr uploaded"
    and "uploaded \<noteq> JNull" and "get_prop uploaded (ascii ''errcode'') = Some (JNum 0)"
    and "get_prop uploaded (ascii ''media_id'') = Some (JStr media_id)" and "media_id \<noteq> []"
    and "axios_post w (BASE_URL @ ascii ''/send'')
           (JsonBody (JObj [(ascii ''msgtype'', JStr (ascii ''file'')),
                            (ascii ''file'', JObj [(ascii ''media_id'', JStr media_id)])]))
           [(ascii ''key'', key)] = Inr ok_body"
  shows "\<exists>upload. fst (handleSendFile w args) =
           Inr (formatSuccess (JObj [(ascii ''upload'', upload),
                                     (ascii ''send'', send_result ok_body)]))"
proof -
  from getWebhookKey_Inr [OF assms(2)] have k: "key \<noteq> []" by simp
  have m: "map_of FILE_SIZE_LIMITS (ascii ''file'') = None"
    by (simp add: FILE_SIZE_LIMITS_def ascii_def)
  have ft: "Some (JStr (ascii ''file'')) \<in> set (map (\<lambda>kv. Some (JStr (snd kv))) FILE_TYPE)"
    by (simp add: FILE_TYPE_def)
  have ne: "ascii ''success'' \<noteq> ascii ''media_id''" "ascii ''message'' \<noteq> ascii ''media_id''"
    by (simp_all add: ascii_def)
  have sm: "WeComClient_sendMessage w key (ascii ''file'') (JObj [(ascii ''media_id'', JStr media_id)]) =
           (Inr (send_result ok_body),
            [HttpPost (BASE_URL @ ascii ''/send'')
               (JsonBody (JObj [(ascii ''msgtype'', JStr (ascii ''file'')),
                                (ascii ''file'', JObj [(ascii ''media_id'', JStr media_id)])]))
               [(ascii ''key'', key)]])"
    using assms(12) ok_body_facts by (rule sendMessage_ok)
  obtain U where U: "fst (WeComClient_uploadMedia w key (Some (JStr p)) (Some (JStr (ascii ''file'')))) = Inr U"
    and Um: "get_prop U (ascii ''media_id'') = Some (JStr media_id)"
    using assms(4-11) m ft ne
    by (simp add: WeComClient_uploadMedia_def Let_def exceeds_def)
  have sf: "fst (WeComClient_sendFile w key (Some (JStr media_id))) = Inr (send_result ok_body)"
    using sm assms(11) by (simp add: WeComClient_sendFile_def)
  show ?thesis
    using assms(1-4) new_WeComClient_string [OF k] U Um sf
    by (auto simp: handleSendFile_def Let_def split: prod.splits sum.splits)
qed


text \<open>
  Claim C8, as amended. When the remote answers the message-send call with
  \<open>{errcode: 0, errmsg: "ok"}\<close>, the dispatcher resolves to the success envelope (no
  \<open>isError\<close> member) whose text is the serialisation of \<open>{success: true, message, data}\<close>
  with the remote body as \<open>data\<close>: so for \<open>send_message\<close>, and for \<open>send_image\<close> by path
  and by URL, once the credential resolves to a string and the local checks pass. For
  \<open>send_file\<close>, whose upload must have been answered with \<open>errcode\<close> 0 and a \<open>media_id\<close>,
  the text is the serialisation of \<open>{upload, send}\<close> with that object as \<open>send\<close>. The
  object deserialised from the text has no member \<open>errcode\<close>: \<open>errcode: 0\<close> is a member of
  its \<open>data\<close>.
\<close>

theorem success_envelope_wraps_remote_body:
  assumes "args \<noteq> JNull"
    and "getWebhookKey w (get_prop args (ascii ''webhook_key'')) = Inr (JStr key)"
  shows
    "(\<forall>s. get_prop args (ascii ''content'') = Some (JStr s) \<and> s \<noteq> []
           \<and> byteLength_utf8 s \<le> 4096
           \<and> axios_post w (BASE_URL @ ascii ''/send'')
                (JsonBody (JObj [(ascii ''msgtype'', JStr (ascii ''markdown_v2'')),
                                 (ascii ''markdown_v2'', JObj [(ascii ''content'', JStr s)])]))
                [(ascii ''key'', key)] = Inr ok_body
        \<longrightarrow> fst (ToolHandler_handle w (Some (JStr (ascii ''send_message''))) args) =
              Inr (formatSuccess (send_result ok_body)))
     \<and> (\<forall>p bytes. get_prop args (ascii ''image_path'') = Some (JStr p) \<and> p \<noteq> []
           \<and> \<not> truthy (get_prop args (ascii ''image_url''))
           \<and> readFile w p = Inr bytes
           \<and> toLowerCase w (drop 1 (path_extname w p)) \<in> set SUPPORTED_IMAGE_FORMATS
           \<and> length bytes \<le> IMAGE_LIMIT
           \<and> axios_post w (BASE_URL @ ascii ''/send'')
                (JsonBody (JObj [(ascii ''msgtype'', JStr (ascii ''image'')),
                                 (ascii ''image'', image_content w bytes)]))
                [(ascii ''key'', key)] = Inr ok_body
        \<longrightarrow> fst (ToolHandler_handle w (Some (JStr (ascii ''send_image''))) args) =
              Inr (formatSuccess (send_result ok_body)))
     \<and> (\<forall>u bytes. \<not> truthy (get_prop args (ascii ''image_path''))
           \<and> get_prop args (ascii ''image_url'') = Some (JStr u) \<and> u \<noteq> []
           \<and> URL_parses w u \<and> axios_get w u = Inr (200, bytes)
           \<and> length bytes \<le> IMAGE_LIMIT
           \<and> axios_post w (BASE_URL @ ascii ''/send'')
                (JsonBody (JObj [(ascii ''msgtype'', JStr (ascii ''image'')),
                                 (ascii ''image'', image_content w bytes)]))
                [(ascii ''key'', key)] = Inr ok_body
        \<longrightarrow> fst (ToolHandler_handle w (Some (JStr (ascii ''send_image''))) args) =
              Inr (formatSuccess (send_result ok_body)))
     \<and> (\<forall>p bytes uploaded media_id.
           get_prop args (ascii ''file_path'') = Some (JStr p) \<and> p \<noteq> []
           \<and> readFile w p = Inr bytes \<and> 5 < length bytes
           \<and> axios_post w (BASE_URL @ ascii ''/upload_media'')
                (FormBody bytes (path_basename w p) (getMimeType w p))
                [(ascii ''key'', key), (ascii ''type'', ascii ''file'')] = Inr uploaded
           \<and> uploaded \<noteq> JNull \<and> get_prop uploaded (ascii ''errcode'') = Some (JNum 0)
           \<and> get_prop uploaded (ascii ''media_id'') = Some (JStr media_id) \<and> media_id \<noteq> []
           \<and> axios_post w (BASE_URL @ ascii ''/send'')
                (JsonBody (JObj [(ascii ''msgtype'', JStr (ascii ''file'')),
                                 (ascii ''file'', JObj [(ascii ''media_id'', JStr media_id)])]))
                [(ascii ''key'', key)] = Inr ok_body
        \<longrightarrow> (\<exists>upload. fst (ToolHandler_handle w (Some (JStr (ascii ''send_file''))) args) =
                Inr (formatSuccess (JObj [(ascii ''upload'', upload),
                                          (ascii ''send'', send_result ok_body)]))))
     \<and> isError (formatSuccess (send_result ok_body)) = None
     \<and> map (\<lambda>item. JSON_parse (item_text item)) (content (formatSuccess (send_result ok_body)))
         = [send_result ok_body]
     \<and> get_prop (send_result ok_body) (ascii ''errcode'') = None
     \<and> get_prop (send_result ok_body) (ascii ''data'') = Some ok_body
     \<and> get_prop ok_body (ascii ''errcode'') = Some (JNum 0)"
  using handleSendMessage_ok [OF assms] handleSendImage_path_ok [OF assms]
        handleSendImage_url_ok [OF assms] handleSendFile_ok [OF assms]
  by (simp only: handle_send_message handle_send_image handle_send_file)
     (simp add: formatSuccess_def send_result_members ok_body_facts)

theorem success_envelope_wraps_remote_body_witness:
  "fst (ToolHandler_handle (answering_world 6) (Some (JStr (ascii ''send_message'')))
          (JObj [(ascii ''content'', JStr (ascii ''hi''))])) =
     Inr (formatSuccess (send_result ok_body))
   \<and> fst (ToolHandler_handle (answering_world 6) (Some (JStr (ascii ''send_image'')))
          (JObj [(ascii ''image_path'', JStr (ascii ''/tmp/a.png''))])) =
     Inr (formatSuccess (send_result ok_body))
   \<and> fst (ToolHandler_handle (answering_world 6) (Some (JStr (ascii ''send_image'')))
          (JObj [(ascii ''image_url'', JStr (ascii ''https://example.com/a.png''))])) =
     Inr (formatSuccess (send_result ok_body))
   \<and> (\<exists>upload. fst (ToolHandler_handle (answering_world 6) (Some (JStr (ascii ''send_file'')))
          (JObj [(ascii ''file_path'', JStr (ascii ''/tmp/report.pdf''))])) =
     Inr (formatSuccess (JObj [(ascii ''upload'', upload), (ascii ''send'', send_result ok_body)])))
   \<and> get_prop (send_result ok_body) (ascii ''errcode'') = None
   \<and> get_prop (send_result ok_body) (ascii ''data'') = Some ok_body
   \<and> get_prop ok_body (ascii ''errcode'') = Some (JNum 0)"
proof -
  let ?w = "answering_world 6"
  have post: "\<And>u j ps. axios_post ?w u (JsonBody j) ps = Inr ok_body"
    by (simp add: answering_world_def mock_world_def)
  have up: "\<And>u f n t ps. axios_post ?w u (FormBody f n t) ps = Inr upload_body"
    by (simp add: answering_world_def mock_world_def)
  have rf: "\<And>p. readFile ?w p = Inr (replicate 6 0)"
    by (simp add: answering_world_def mock_world_def)
  have get: "\<And>u. axios_get ?w u = Inr (200, [])" "\<And>u. URL_parses ?w u"
    by (simp_all add: answering_world_def mock_world_def)
  have ext: "\<And>p. toLowerCase ?w (drop 1 (path_extname ?w p)) \<in> set SUPPORTED_IMAGE_FORMATS"
    by (simp add: answering_world_def mock_world_def SUPPORTED_IMAGE_FORMATS_def ascii_def)
  have lim: "length (replicate 6 (0::8 word)) \<le> IMAGE_LIMIT" "length ([]::8 word list) \<le> IMAGE_LIMIT"
    by (simp_all add: IMAGE_LIMIT_def)
  have ub: "upload_body \<noteq> JNull" "get_prop upload_body (ascii ''errcode'') = Some (JNum 0)"
    "get_prop upload_body (ascii ''media_id'') = Some (JStr (ascii ''MEDIA''))"
    "ascii ''MEDIA'' \<noteq> []"
    by (simp_all add: upload_body_def ascii_def)
  have k: "\<And>a. get_prop a (ascii ''webhook_key'') = None \<Longrightarrow>
             getWebhookKey ?w (get_prop a (ascii ''webhook_key'')) = Inr (JStr (ascii ''KEY''))"
    by (simp add: answering_world_key)
  have a1: "get_prop (JObj [(ascii ''content'', JStr (ascii ''hi''))]) (ascii ''webhook_key'') = None"
           "get_prop (JObj [(ascii ''content'', JStr (ascii ''hi''))]) (ascii ''content'')
              = Some (JStr (ascii ''hi''))"
           "ascii ''hi'' \<noteq> []" "byteLength_utf8 (ascii ''hi'') \<le> 4096"
    by (simp_all add: ascii_def)
  have a2: "get_prop (JObj [(ascii ''image_path'', JStr (ascii ''/tmp/a.png''))]) (ascii ''webhook_key'') = None"
           "get_prop (JObj [(ascii ''image_path'', JStr (ascii ''/tmp/a.png''))]) (ascii ''image_path'')
              = Some (JStr (ascii ''/tmp/a.png''))"
           "ascii ''/tmp/a.png'' \<noteq> []"
           "\<not> truthy (get_prop (JObj [(ascii ''image_path'', JStr (ascii ''/tmp/a.png''))]) (ascii ''image_url''))"
    by (simp_all add: ascii_def)
  have a3: "get_prop (JObj [(ascii ''image_url'', JStr (ascii ''https://example.com/a.png''))]) (ascii ''webhook_key'') = None"
           "get_prop (JObj [(ascii ''image_url'', JStr (ascii ''https://example.com/a.png''))]) (ascii ''image_url'')
              = Some (JStr (ascii ''https://example.com/a.png''))"
           "ascii ''https://example.com/a.png'' \<noteq> []"
           "\<not> truthy (get_prop (JObj [(ascii ''image_url'', JStr (ascii ''https://example.com/a.png''))]) (ascii ''image_path''))"
    by (simp_all add: ascii_def)
  have a4: "get_prop (JObj [(ascii ''file_path'', JStr (ascii ''/tmp/report.pdf''))]) (ascii ''webhook_key'') = None"
           "get_prop (JObj [(ascii ''file_path'', JStr (ascii ''/tmp/report.pdf''))]) (ascii ''file_path'')
              = Some (JStr (ascii ''/tmp/report.pdf''))"
           "ascii ''/tmp/report.pdf'' \<noteq> []"
    by (simp_all add: ascii_def)
  have nn: "\<And>kvs. JObj kvs \<noteq> JNull" by simp
  note T1 = success_envelope_wraps_remote_body [OF nn k [OF a1(1)], THEN conjunct1, rule_format]
  note T2 = success_envelope_wraps_remote_body [OF nn k [OF a2(1)], THEN conjunct2, THEN conjunct1, rule_format]
  note T3 = success_envelope_wraps_remote_body [OF nn k [OF a3(1)], THEN conjunct2, THEN conjunct2,
              THEN conjunct1, rule_format]
  note T4 = success_envelope_wraps_remote_body [OF nn k [OF a4(1)], THEN conjunct2, THEN conjunct2,
              THEN conjunct2, THEN conjunct1, rule_format]
  note T5 = success_envelope_wraps_remote_body [OF nn k [OF a1(1)], THEN conjunct2, THEN conjunct2,
              THEN conjunct2, THEN conjunct2]
  have c1: "fst (ToolHandler_handle ?w (Some (JStr (ascii ''send_message'')))
          (JObj [(ascii ''content'', JStr (ascii ''hi''))])) =
     Inr (formatSuccess (send_result ok_body))"
    by (rule T1 [of "ascii ''hi''"]) (intro conjI a1 post)
  have c2: "fst (ToolHandler_handle ?w (Some (JStr (ascii ''send_image'')))
          (JObj [(ascii ''image_path'', JStr (ascii ''/tmp/a.png''))])) =
     Inr (formatSuccess (send_result ok_body))"
    by (rule T2 [of "ascii ''/tmp/a.png''" "replicate 6 0"]) (intro conjI a2 post rf ext lim)
  have c3: "fst (ToolHandler_handle ?w (Some (JStr (ascii ''send_image'')))
          (JObj [(ascii ''image_url'', JStr (ascii ''https://example.com/a.png''))])) =
     Inr (formatSuccess (send_result ok_body))"
    by (rule T3 [of "ascii ''https://example.com/a.png''" "[]"]) (intro conjI a3 post get lim)
  have c4: "\<exists>upload. fst (ToolHandler_handle ?w (Some (JStr (ascii ''send_file'')))
          (JObj [(ascii ''file_path'', JStr (ascii ''/tmp/report.pdf''))])) =
     Inr (formatSuccess (JObj [(ascii ''upload'', upload), (ascii ''send'', send_result ok_body)]))"
    by (rule T4 [of "ascii ''/tmp/report.pdf''" "replicate 6 0" upload_body "ascii ''MEDIA''"]) (intro conjI a4 post up rf ub; simp)
  have c5: "get_prop (send_result ok_body) (ascii ''errcode'') = None
   \<and> get_prop (send_result ok_body) (ascii ''data'') = Some ok_body
   \<and> get_prop ok_body (ascii ''errcode'') = Some (JNum 0)"
    using T5 by simp
  from c1 c2 c3 c4 c5 show ?thesis by blast
qed

text \<open>
  Claim C8 as stated fails: the object that the text of the success envelope deserialises
  to has no member \<open>errcode\<close>.
\<close>

theorem errcode_is_not_a_member_of_the_content:
  "map (\<lambda>v. get_prop v (ascii ''errcode''))
     (deserialized (ToolHandler_handle (answering_world 6) (Some (JStr (ascii ''send_message'')))
                      (JObj [(ascii ''content'', JStr (ascii ''hi''))]))) = [None]"
  by (simp add: deserialized_def ToolHandler_handle_def handleSendMessage_def
                getWebhookKey_def DEFAULT_WEBHOOK_KEY_def or_else_def new_WeComClient_def
                WeComClient_sendMarkdownV2_def WeComClient_sendMessage_def MARKDOWN_MAX_BYTES_def
                answering_world_def mock_world_def ok_body_def try_format_def formatSuccess_def
                Let_def ascii_def)

subsection \<open>The size limit of an upload\<close>

text \<open>
  Claim C2, where the code departs from it. \<open>FILE_SIZE_LIMITS\<close> has the keys \<open>FILE\<close>,
  \<open>VOICE\<close> and \<open>IMAGE\<close>, and \<open>uploadMedia\<close> looks the limit up under the type, \<open>file\<close> or
  \<open>voice\<close>: the lookup gives \<open>undefined\<close>, the comparison is false, and a file above the
  limit is uploaded. Here a file of 20 MB and one byte is posted as type \<open>file\<close>, and one
  of 2 MB and one byte as type \<open>voice\<close>; both calls resolve to the upload result.
\<close>

theorem upload_limit_is_not_enforced:
  "map_of FILE_SIZE_LIMITS (ascii ''file'') = None
   \<and> map_of FILE_SIZE_LIMITS (ascii ''voice'') = None
   \<and> fst (WeComClient_uploadMedia (answering_world (20 * 1024 * 1024 + 1)) (ascii ''KEY'')
            (Some (JStr (ascii ''/tmp/big.bin''))) (Some (JStr (ascii ''file'')))) =
       Inr upload_result
   \<and> map is_network_call
        (snd (WeComClient_uploadMedia (answering_world (20 * 1024 * 1024 + 1)) (ascii ''KEY'')
                (Some (JStr (ascii ''/tmp/big.bin''))) (Some (JStr (ascii ''file''))))) =
       [False, True]
   \<and> fst (WeComClient_uploadMedia (answering_world (2 * 1024 * 1024 + 1)) (ascii ''KEY'')
            (Some (JStr (ascii ''/tmp/big.amr''))) (Some (JStr (ascii ''voice'')))) =
       Inr upload_result"
  by (simp add: WeComClient_uploadMedia_def FILE_SIZE_LIMITS_def FILE_TYPE_def exceeds_def
                answering_world_def mock_world_def upload_body_def upload_result_def
                Let_def ascii_def)

theorem upload_limit_is_not_enforced_witness:
  "(case fst (WeComClient_uploadMedia (answering_world (20 * 1024 * 1024 + 1)) (ascii ''KEY'')
                (Some (JStr (ascii ''/tmp/big.bin''))) (Some (JStr (ascii ''file'')))) of
      Inl error \<Rightarrow> False
    | Inr result \<Rightarrow> get_prop result (ascii ''media_id'') = Some (JStr (ascii ''MEDIA'')))"
  using upload_limit_is_not_enforced by (simp add: upload_result_def ascii_def)

end
